theory Spec2Isabelle
  imports Complex_Main "HOL-Library.Log_Nat"
begin

section \<open>Python run-time values used by the evaluators\<close>

text \<open>
  The evaluators are Python functions.  A Python \<^verbatim>\<open>int\<close> is an unbounded integer
  (\<^typ>\<open>int\<close>), a \<^verbatim>\<open>str\<close> is a \<^typ>\<open>string\<close> and an exception that leaves a function
  is the \<open>Inl\<close> branch of a sum.  Source names that start with an underscore lose
  it here (\<^verbatim>\<open>_valuesMatch\<close> is \<open>valuesMatch\<close>), since a name in this theory cannot start
  with one.
\<close>

datatype pyerr = TypeError | ValueError | KeyError | OverflowError | ZeroDivisionError | IndexError

definition ebind :: "'e + 'a \<Rightarrow> ('a \<Rightarrow> 'e + 'b) \<Rightarrow> 'e + 'b" where
  "ebind m f = (case m of Inl e \<Rightarrow> Inl e | Inr a \<Rightarrow> f a)"

subsection \<open>Double-precision floats\<close>

text \<open>
  A Python \<^verbatim>\<open>float\<close> is an IEEE 754 binary64 number.  A finite one is modelled by the
  rational it denotes, and every operation rounds its exact result to the nearest
  representable number, ties to the even significand.  \<open>rne\<close> rounds a rational to the
  nearest integer (ties to even), \<open>binexp x\<close> is the exponent \<open>e\<close> with
  \<open>2\<^sup>e \<le> x < 2\<^sup>e\<^sup>+\<^sup>1\<close>, and \<open>fl\<close> rounds to 53 significant bits, with the fixed spacing
  \<open>2\<^sup>-\<^sup>1\<^sup>0\<^sup>7\<^sup>4\<close> below the normal range.  The sign of a zero is not modelled.
\<close>

definition rne :: "rat \<Rightarrow> int" where
  "rne x = (let f = \<lfloor>x\<rfloor>; d = x - of_int f in
     if d < 1/2 then f else if 1/2 < d then f + 1 else if even f then f else f + 1)"

definition binexp :: "rat \<Rightarrow> int" where
  "binexp x = (case quotient_of x of (p, q) \<Rightarrow>
     (let d = bitlen p - bitlen q in if 2 powi d \<le> x then d else d - 1))"

definition ulpexp :: "rat \<Rightarrow> int" where
  "ulpexp x = max (binexp \<bar>x\<bar>) (- 1022) - 52"

definition fl :: "rat \<Rightarrow> rat" where
  "fl x = (if x = 0 then 0 else of_int (rne (x / 2 powi ulpexp x)) * 2 powi ulpexp x)"

datatype pyfloat = Fin rat | PosInf | NegInf | NaN

text \<open>A rounded magnitude of \<open>2\<^sup>1\<^sup>0\<^sup>2\<^sup>4\<close> or more (binary exponent 1024 or more) is out of
  range: the operation overflows.\<close>

definition to_double :: "rat \<Rightarrow> pyfloat" where
  "to_double x = (let r = fl x in
     if r = 0 \<or> binexp \<bar>r\<bar> < 1024 then Fin r else if 0 < r then PosInf else NegInf)"

fun fsgn :: "pyfloat \<Rightarrow> int" where
  "fsgn (Fin x) = (if x < 0 then - 1 else if x = 0 then 0 else 1)"
| "fsgn PosInf = 1"
| "fsgn NegInf = - 1"
| "fsgn NaN = 0"

fun fneg :: "pyfloat \<Rightarrow> pyfloat" where
  "fneg (Fin x) = Fin (- x)"
| "fneg PosInf = NegInf"
| "fneg NegInf = PosInf"
| "fneg NaN = NaN"

fun fabs :: "pyfloat \<Rightarrow> pyfloat" where
  "fabs (Fin x) = Fin \<bar>x\<bar>"
| "fabs PosInf = PosInf"
| "fabs NegInf = PosInf"
| "fabs NaN = NaN"

fun fmul :: "pyfloat \<Rightarrow> pyfloat \<Rightarrow> pyfloat" where
  "fmul (Fin x) (Fin y) = to_double (x * y)"
| "fmul NaN b = NaN"
| "fmul a NaN = NaN"
| "fmul a b = (if fsgn a * fsgn b = 0 then NaN else if 0 < fsgn a * fsgn b then PosInf else NegInf)"

fun fadd :: "pyfloat \<Rightarrow> pyfloat \<Rightarrow> pyfloat" where
  "fadd (Fin x) (Fin y) = to_double (x + y)"
| "fadd NaN b = NaN"
| "fadd a NaN = NaN"
| "fadd PosInf NegInf = NaN"
| "fadd NegInf PosInf = NaN"
| "fadd (Fin x) b = b"
| "fadd a b = a"

definition fsub :: "pyfloat \<Rightarrow> pyfloat \<Rightarrow> pyfloat" where
  "fsub a b = fadd a (fneg b)"

fun flt :: "pyfloat \<Rightarrow> pyfloat \<Rightarrow> bool" where
  "flt NaN b = False"
| "flt a NaN = False"
| "flt (Fin x) (Fin y) = (x < y)"
| "flt a b = (fsgn a < fsgn b \<and> (a = NegInf \<or> b = PosInf))"

text \<open>A float literal of the source denotes the double nearest to its decimal value.\<close>

definition float_lit :: "rat \<Rightarrow> pyfloat" where
  "float_lit r = to_double r"

text \<open>\<^verbatim>\<open>float(n)\<close> and \<^verbatim>\<open>a / b\<close> on ints round correctly and raise where the result
  is out of range; \<^verbatim>\<open>int(x)\<close> truncates toward zero and \<^verbatim>\<open>round(x)\<close> rounds half to even.\<close>

definition float_of_int :: "int \<Rightarrow> pyerr + pyfloat" where
  "float_of_int n = (case to_double (of_int n) of Fin r \<Rightarrow> Inr (Fin r) | _ \<Rightarrow> Inl OverflowError)"

definition int_truediv :: "int \<Rightarrow> int \<Rightarrow> pyerr + pyfloat" where
  "int_truediv a b =
     (if b = 0 then Inl ZeroDivisionError
      else case to_double (of_int a / of_int b) of Fin r \<Rightarrow> Inr (Fin r) | _ \<Rightarrow> Inl OverflowError)"

fun int_of_float :: "pyfloat \<Rightarrow> pyerr + int" where
  "int_of_float (Fin x) = Inr (if 0 \<le> x then \<lfloor>x\<rfloor> else \<lceil>x\<rceil>)"
| "int_of_float NaN = Inl ValueError"
| "int_of_float a = Inl OverflowError"

fun py_round :: "pyfloat \<Rightarrow> pyerr + int" where
  "py_round (Fin x) = Inr (rne x)"
| "py_round NaN = Inl ValueError"
| "py_round a = Inl OverflowError"

text \<open>\<^verbatim>\<open>n * w\<close> with an int \<open>n\<close> and a float \<open>w\<close> converts \<open>n\<close> first.\<close>

definition int_times_float :: "int \<Rightarrow> pyfloat \<Rightarrow> pyerr + pyfloat" where
  "int_times_float n w = ebind (float_of_int n) (\<lambda>x. Inr (fmul x w))"

subsection \<open>Strings\<close>

text \<open>
  Text is modelled for ASCII input, where a character is a byte and the length of a
  string is its number of characters: \<open>py_isspace\<close> holds of the ASCII characters for which
  \<^verbatim>\<open>str.isspace\<close> holds, and \<open>py_splitlines\<close> splits at the ASCII line boundaries of
  \<^verbatim>\<open>str.splitlines\<close> (without keeping them).
\<close>

definition NL :: string where "NL = [char_of (10::nat)]"
definition DQ :: string where "DQ = [char_of (34::nat)]"

text \<open>The em dash of the message literals, as its UTF-8 bytes.\<close>

definition EM_DASH :: string where
  "EM_DASH = [char_of (226::nat), char_of (128::nat), char_of (148::nat)]"

definition py_isspace :: "char \<Rightarrow> bool" where
  "py_isspace c = ((of_char c :: nat) \<in> {9, 10, 11, 12, 13, 28, 29, 30, 31, 32})"

definition py_rstrip :: "string \<Rightarrow> string" where
  "py_rstrip s = rev (dropWhile py_isspace (rev s))"

definition py_strip :: "string \<Rightarrow> string" where
  "py_strip s = dropWhile py_isspace (py_rstrip s)"

definition is_linebreak :: "char \<Rightarrow> bool" where
  "is_linebreak c = ((of_char c :: nat) \<in> {10, 11, 12, 13, 28, 29, 30})"

fun splitlines_from :: "string \<Rightarrow> string \<Rightarrow> string list" where
  "splitlines_from cur [] = (if cur = [] then [] else [cur])"
| "splitlines_from cur [c] =
     (if is_linebreak c then [cur] else [cur @ [c]])"
| "splitlines_from cur (c # d # cs) =
     (if (of_char c :: nat) = 13 \<and> (of_char d :: nat) = 10 then cur # splitlines_from [] cs
      else if is_linebreak c then cur # splitlines_from [] (d # cs)
      else splitlines_from (cur @ [c]) (d # cs))"

definition py_splitlines :: "string \<Rightarrow> string list" where
  "py_splitlines s = splitlines_from [] s"

fun digits :: "nat \<Rightarrow> string" where
  "digits n = (if n < 10 then [char_of (48 + n)] else digits (n div 10) @ [char_of (48 + n mod 10)])"

text \<open>\<^verbatim>\<open>str(n)\<close> of an int, as an f-string renders it.  The interpreter's limit on the
  number of digits of such a conversion (4300 by default, beyond which it raises
  \<^verbatim>\<open>ValueError\<close>) is not modelled.\<close>

definition str_of_int :: "int \<Rightarrow> string" where
  "str_of_int i = (if i < 0 then ''-'' @ digits (nat (- i)) else digits (nat i))"

text \<open>\<^verbatim>\<open>s.count(sub)\<close>: the number of non-overlapping occurrences, scanning from the left.\<close>

fun str_count :: "string \<Rightarrow> string \<Rightarrow> nat" where
  "str_count sub [] = (if sub = [] then 1 else 0)"
| "str_count sub (c # cs) =
     (if sub = [] then Suc (str_count sub cs)
      else if take (length sub) (c # cs) = sub
        then Suc (str_count sub (drop (length sub) (c # cs)))
      else str_count sub cs)"

text \<open>\<^verbatim>\<open>sub in s\<close> on strings.\<close>

fun str_contains :: "string \<Rightarrow> string \<Rightarrow> bool" where
  "str_contains sub [] = (sub = [])"
| "str_contains sub (c # cs) = (take (length sub) (c # cs) = sub \<or> str_contains sub cs)"

subsection \<open>Values decoded from JSON\<close>

datatype pyval =
    PNone
  | PBool bool
  | PInt int
  | PFloat pyfloat
  | PStr string
  | PList "pyval list"
  | PDict "(string \<times> pyval) list"

text \<open>The numeric value of a bool, int or float; comparison between an int and a float
  is exact in Python.\<close>

fun num_of :: "pyval \<Rightarrow> pyfloat option" where
  "num_of (PBool b) = Some (Fin (if b then 1 else 0))"
| "num_of (PInt n) = Some (Fin (of_int n))"
| "num_of (PFloat f) = Some f"
| "num_of v = None"

fun feq :: "pyfloat \<Rightarrow> pyfloat \<Rightarrow> bool" where
  "feq NaN b = False"
| "feq a NaN = False"
| "feq a b = (a = b)"

text \<open>\<^verbatim>\<open>a == b\<close> on decoded values.  A dict is an association list with distinct keys.
  Inside a list or a dict, Python compares two items by identity before it compares them
  by value; \<^verbatim>\<open>json\<close> decodes every \<^verbatim>\<open>NaN\<close> to one and the same float object, so two
  \<^verbatim>\<open>NaN\<close> items are equal there, although \<^verbatim>\<open>NaN == NaN\<close> is false.\<close>

fun is_nan :: "pyval \<Rightarrow> bool" where
  "is_nan (PFloat NaN) = True"
| "is_nan v = False"

fun py_eq :: "pyval \<Rightarrow> pyval \<Rightarrow> bool" where
  "py_eq PNone PNone = True"
| "py_eq (PStr s) (PStr t) = (s = t)"
| "py_eq (PList xs) (PList ys) = list_all2 (\<lambda>x y. (is_nan x \<and> is_nan y) \<or> py_eq x y) xs ys"
| "py_eq (PDict a) (PDict b) =
     (length a = length b \<and>
      list_all (\<lambda>kv. case map_of b (fst kv) of
                        None \<Rightarrow> False
                      | Some w \<Rightarrow> (is_nan (snd kv) \<and> is_nan w) \<or> py_eq (snd kv) w) a)"
| "py_eq a b = (case (num_of a, num_of b) of (Some x, Some y) \<Rightarrow> feq x y | _ \<Rightarrow> False)"

text \<open>\<^verbatim>\<open>v[key]\<close> with a string key, \<^verbatim>\<open>v.get(key)\<close> on a dict, and truthiness of a string.\<close>

fun subscript :: "pyval \<Rightarrow> string \<Rightarrow> pyerr + pyval" where
  "subscript (PDict d) key = (case map_of d key of None \<Rightarrow> Inl KeyError | Some v \<Rightarrow> Inr v)"
| "subscript v key = Inl TypeError"

definition dict_get :: "(string \<times> pyval) list \<Rightarrow> string \<Rightarrow> pyval" where
  "dict_get d key = (case map_of d key of None \<Rightarrow> PNone | Some v \<Rightarrow> v)"

subsection \<open>Syntax trees\<close>

text \<open>
  A node of Python's \<^verbatim>\<open>ast\<close> module: its class name, \<^verbatim>\<open>lineno\<close> and \<^verbatim>\<open>end_lineno\<close>
  (absent on nodes that carry no position), its string-valued attributes by name
  (\<^verbatim>\<open>name\<close>, \<^verbatim>\<open>id\<close>, \<^verbatim>\<open>attr\<close>, \<^verbatim>\<open>arg\<close>, \<^verbatim>\<open>asname\<close>, \<^verbatim>\<open>module\<close>), the value of a
  \<^verbatim>\<open>Constant\<close>, and its child nodes in the order of \<^verbatim>\<open>ast.iter_child_nodes\<close>, each with
  the name of the field that holds it.  A field that is \<^verbatim>\<open>None\<close> or an empty list has
  no child.
\<close>

datatype constval =
    CNone | CBool bool | CInt int | CFloat pyfloat | CStr string | CBytes string
  | CEllipsis | CImaginary pyfloat

datatype node =
  Node (cls: string) (lineno: "int option") (end_lineno: "int option")
    (sattrs: "(string \<times> string) list") (cvalue: "constval option")
    (children: "(string \<times> node) list")

text \<open>\<^verbatim>\<open>node.f\<close> for a field holding a list of nodes (or one optional node).\<close>

definition field :: "string \<Rightarrow> node \<Rightarrow> node list" where
  "field f n = map snd (filter (\<lambda>kv. fst kv = f) (children n))"

definition sattr :: "string \<Rightarrow> node \<Rightarrow> string option" where
  "sattr a n = map_of (sattrs n) a"

definition iter_child_nodes :: "node \<Rightarrow> node list" where
  "iter_child_nodes n = map snd (children n)"

text \<open>\<^verbatim>\<open>ast.walk\<close>: breadth first, from a queue.\<close>

function walk_queue :: "node list \<Rightarrow> node list" where
  "walk_queue [] = []"
| "walk_queue (n # todo) = n # walk_queue (todo @ iter_child_nodes n)"
  by pat_completeness auto
termination
proof (relation "measure (\<lambda>q. sum_list (map size q))")
  show "wf (measure (\<lambda>q. sum_list (map size q)))" by simp
next
  fix n :: node and todo :: "node list"
  have "sum_list (map size (map snd ch)) \<le> size_list (size_prod (\<lambda>_. 0) size) ch"
    for ch :: "(string \<times> node) list"
    by (induction ch) auto
  then have "sum_list (map size (iter_child_nodes n)) < size n"
    by (cases n) (simp add: iter_child_nodes_def le_imp_less_Suc)
  then show "(todo @ iter_child_nodes n, n # todo) \<in> measure (\<lambda>q. sum_list (map size q))"
    by simp
qed

definition walk :: "node \<Rightarrow> node list" where
  "walk tree = walk_queue [tree]"

subsection \<open>The platform\<close>

text \<open>
  What the evaluators call outside the repository is a parameter of the model.
  \<^item> \<open>run_process script\<close> is \<^verbatim>\<open>subprocess.run([sys.executable, "-c", script],
    capture_output=True, text=True, timeout=5)\<close>: the process completes with its standard
    output and error text, or the timeout expires, or the call raises another exception
    (with its message).
  \<^item> \<open>json_loads\<close> is \<^verbatim>\<open>json.loads\<close>, \<open>None\<close> standing for \<^verbatim>\<open>JSONDecodeError\<close>.
  \<^item> \<open>float_of_str\<close> is \<^verbatim>\<open>float\<close> on a string, \<open>None\<close> standing for \<^verbatim>\<open>ValueError\<close>.
  \<^item> \<open>py_sorted\<close> is \<^verbatim>\<open>sorted\<close> on a list of decoded values (it raises \<^verbatim>\<open>TypeError\<close> on
    values that cannot be ordered), \<open>py_str\<close> is \<^verbatim>\<open>str\<close> on a decoded value.
  \<^item> \<open>textwrap_dedent\<close> is \<^verbatim>\<open>textwrap.dedent\<close>.
  \<^item> \<open>ast_parse\<close> is \<^verbatim>\<open>ast.parse\<close>, \<open>Inl msg\<close> standing for a \<^verbatim>\<open>SyntaxError\<close> whose
    \<^verbatim>\<open>str\<close> is \<open>msg\<close>; \<open>ast_unparse\<close> is \<^verbatim>\<open>ast.unparse\<close>, \<open>None\<close> when it raises.
  \<^item> \<open>re_finditer p s\<close> lists \<^verbatim>\<open>match.start()\<close> of the matches of pattern \<open>p\<close> in \<open>s\<close>,
    in the order of \<^verbatim>\<open>finditer\<close>.
\<close>

datatype proc_result = Completed string string | TimeoutExpired | RaisedOther string

text \<open>The compiled patterns of \<^verbatim>\<open>securityEvaluator.py\<close>: the four \<^verbatim>\<open>SECRET_PATTERNS\<close>
  (password, API key, token, AWS secret) and \<^verbatim>\<open>SQL_INJECTION_PATTERN\<close>.\<close>

datatype pattern = PasswordPattern | ApiKeyPattern | TokenPattern | AwsSecretPattern
  | SqlInjectionPattern

record platform =
  run_process :: "string \<Rightarrow> proc_result"
  json_loads :: "string \<Rightarrow> pyval option"
  float_of_str :: "string \<Rightarrow> pyfloat option"
  py_sorted :: "pyval list \<Rightarrow> pyerr + pyval list"
  py_str :: "pyval \<Rightarrow> string"
  textwrap_dedent :: "string \<Rightarrow> string"
  ast_parse :: "string \<Rightarrow> string + node"
  ast_unparse :: "node \<Rightarrow> string option"
  re_finditer :: "pattern \<Rightarrow> string \<Rightarrow> nat list"

section \<open>Correctness evaluator (\<^verbatim>\<open>correctnessEvaluator.py\<close>)\<close>

definition SANDBOX_TIMEOUT_SECONDS :: int where "SANDBOX_TIMEOUT_SECONDS = 5"
definition MAX_OUTPUT_CHARS :: nat where "MAX_OUTPUT_CHARS = 500"

text \<open>A test case of the problem file.  \<^verbatim>\<open>label\<close>, \<^verbatim>\<open>args\<close>, \<^verbatim>\<open>ordered\<close> and \<^verbatim>\<open>weight\<close>
  may be absent and are read with a default; an absent \<^verbatim>\<open>expected\<close> reads as
  \<^verbatim>\<open>None\<close>, like a \<^verbatim>\<open>null\<close> one.  The weight is an int, as the docstring has it.\<close>

record testcase =
  tc_label :: "string option"
  tc_args :: "string option"
  tc_expected :: pyval
  tc_ordered :: "bool option"
  tc_weight :: "int option"

record problem =
  preamble :: "string option"
  testCases :: "testcase list"
  hiddenTestCases :: "testcase list"

record testResult =
  r_label :: string
  r_status :: pyval
  r_expected :: pyval
  r_actual :: pyval
  r_error :: pyval
  r_hidden :: bool
  r_weight :: int

record correctnessResult =
  c_score :: int
  c_passed :: int
  c_total :: int
  c_testResults :: "testResult list"

definition buildRunnerScript :: "platform \<Rightarrow> string \<Rightarrow> string \<Rightarrow> string \<Rightarrow> string" where
  "buildRunnerScript P submittedCode functionCall preamble_text =
     (let dedentedCode = textwrap_dedent P submittedCode in
      concat
       ([''import json, sys'' @ NL]
        @ (if preamble_text \<noteq> []
           then [''# ---- Problem preamble ----'' @ NL, textwrap_dedent P preamble_text, NL]
           else [])
        @ [''# ---- Submitted solution ----'' @ NL,
           dedentedCode,
           NL @ NL @ ''# ---- Test driver ----'' @ NL,
           ''try:'' @ NL,
           ''    result = '' @ functionCall @ NL,
           ''    print(json.dumps({'' @ DQ @ ''status'' @ DQ @ '': '' @ DQ @ ''ok'' @ DQ @ '', ''
              @ DQ @ ''result'' @ DQ @ '': result}))'' @ NL,
           ''except Exception as exc:'' @ NL,
           ''    print(json.dumps({'' @ DQ @ ''status'' @ DQ @ '': '' @ DQ @ ''error'' @ DQ @ '', ''
              @ DQ @ ''error'' @ DQ @ '': str(exc)}))'' @ NL]))"

definition outcome_dict :: "string \<Rightarrow> string \<Rightarrow> pyval" where
  "outcome_dict status err = PDict [(''status'', PStr status), (''error'', PStr err)]"

text \<open>\<^verbatim>\<open>_runInSandbox\<close>.  Every exception raised inside it is caught: the expired timeout,
  the failed decoding of the last line, and anything else (\<^verbatim>\<open>except Exception\<close>), which
  covers the \<^verbatim>\<open>[-1]\<close> of an empty list of lines.  A last line that decodes is returned as
  it decodes, whatever its shape.\<close>

definition runInSandbox :: "platform \<Rightarrow> string \<Rightarrow> pyval" where
  "runInSandbox P script =
     (case run_process P script of
        TimeoutExpired \<Rightarrow>
          outcome_dict ''timeout''
            (''Exceeded '' @ str_of_int SANDBOX_TIMEOUT_SECONDS @ ''s time limit.'')
      | RaisedOther msg \<Rightarrow> outcome_dict ''error'' msg
      | Completed out err \<Rightarrow>
          (let rawOutput = py_strip out in
           if rawOutput = [] then
             (let stderrSnippet = py_strip (take MAX_OUTPUT_CHARS err) in
              outcome_dict ''error''
                (if stderrSnippet \<noteq> [] then stderrSnippet else ''No output produced.''))
           else
             (case filter (\<lambda>l. py_strip l \<noteq> []) (py_splitlines rawOutput) of
                [] \<Rightarrow> outcome_dict ''error'' ''list index out of range''
              | l # ls \<Rightarrow>
                  (case json_loads P (last (l # ls)) of
                     None \<Rightarrow>
                       outcome_dict ''error''
                         (''Could not parse output: '' @ take MAX_OUTPUT_CHARS rawOutput)
                   | Some v \<Rightarrow> v))))"

text \<open>\<^verbatim>\<open>float(v)\<close> on a decoded value.\<close>

fun py_float :: "platform \<Rightarrow> pyval \<Rightarrow> pyerr + pyfloat" where
  "py_float P PNone = Inl TypeError"
| "py_float P (PBool b) = Inr (Fin (if b then 1 else 0))"
| "py_float P (PInt n) = float_of_int n"
| "py_float P (PFloat f) = Inr f"
| "py_float P (PStr s) = (case float_of_str P s of None \<Rightarrow> Inl ValueError | Some f \<Rightarrow> Inr f)"
| "py_float P (PList xs) = Inl TypeError"
| "py_float P (PDict d) = Inl TypeError"

fun is_float :: "pyval \<Rightarrow> bool" where
  "is_float (PFloat f) = True"
| "is_float v = False"

fun is_list :: "pyval \<Rightarrow> bool" where
  "is_list (PList xs) = True"
| "is_list v = False"

fun list_items :: "pyval \<Rightarrow> pyval list" where
  "list_items (PList xs) = xs"
| "list_items v = []"

text \<open>\<^verbatim>\<open>except (TypeError, ValueError): return False\<close> around the float comparison,
  and \<^verbatim>\<open>except TypeError\<close> around the first sorted comparison: any other exception
  leaves \<^verbatim>\<open>_valuesMatch\<close>.\<close>

definition float_compare :: "platform \<Rightarrow> pyval \<Rightarrow> pyval \<Rightarrow> pyerr + bool" where
  "float_compare P actual expected =
     ebind (py_float P actual) (\<lambda>a.
     ebind (py_float P expected) (\<lambda>e.
     Inr (flt (fabs (fsub a e)) (float_lit (1 / 1000000)))))"

definition sorted_compare :: "platform \<Rightarrow> pyval list \<Rightarrow> pyval list \<Rightarrow> pyerr + bool" where
  "sorted_compare P xs ys =
     ebind (py_sorted P xs) (\<lambda>sx.
     ebind (py_sorted P ys) (\<lambda>sy.
     Inr (py_eq (PList sx) (PList sy))))"

definition valuesMatch :: "platform \<Rightarrow> pyval \<Rightarrow> pyval \<Rightarrow> bool \<Rightarrow> pyerr + bool" where
  "valuesMatch P actual expected ordered =
     (if expected = PNone then Inr (actual = PNone)
      else if is_float expected \<or> is_float actual then
        (case float_compare P actual expected of
           Inl TypeError \<Rightarrow> Inr False
         | Inl ValueError \<Rightarrow> Inr False
         | r \<Rightarrow> r)
      else if is_list expected \<and> is_list actual then
        (if \<not> ordered then
           (case sorted_compare P (list_items actual) (list_items expected) of
              Inl TypeError \<Rightarrow>
                sorted_compare P (map (\<lambda>v. PStr (py_str P v)) (list_items actual))
                  (map (\<lambda>v. PStr (py_str P v)) (list_items expected))
            | r \<Rightarrow> r)
         else Inr (py_eq actual expected))
      else Inr (py_eq actual expected))"

text \<open>\<^verbatim>\<open>tc.get("weight", 1)\<close>\<close>

definition caseWeight :: "testcase \<Rightarrow> int" where
  "caseWeight tc = (case tc_weight tc of None \<Rightarrow> 1 | Some w \<Rightarrow> w)"

text \<open>One iteration of the \<^verbatim>\<open>for tc in allTestCases\<close> loop: the test case with its
  \<^verbatim>\<open>hidden\<close> flag, and the state \<open>(testResults, totalWeight, earnedWeight)\<close>.\<close>

definition evalTestCase ::
  "platform \<Rightarrow> string \<Rightarrow> string \<Rightarrow> testcase \<times> bool \<Rightarrow> testResult list \<times> int \<times> int
    \<Rightarrow> pyerr + testResult list \<times> int \<times> int" where
  "evalTestCase P submittedCode preamble_text tch st =
     (case st of (testResults, totalWeight0, earnedWeight0) \<Rightarrow>
      let tc = fst tch;
          label = (case tc_label tc of None \<Rightarrow> ''Unnamed test'' | Some l \<Rightarrow> l);
          functionCall = (case tc_args tc of None \<Rightarrow> [] | Some a \<Rightarrow> a);
          expected = tc_expected tc;
          ordered = (case tc_ordered tc of None \<Rightarrow> True | Some b \<Rightarrow> b);
          weight = caseWeight tc;
          totalWeight = totalWeight0 + weight;
          script = buildRunnerScript P submittedCode functionCall preamble_text;
          outcome = runInSandbox P script
      in
      ebind (subscript outcome ''status'') (\<lambda>ostatus.
        if py_eq ostatus (PStr ''ok'') then
          ebind (subscript outcome ''result'') (\<lambda>actual.
          ebind (valuesMatch P actual expected ordered) (\<lambda>passed.
            Inr (testResults @
                 [\<lparr>r_label = label,
                   r_status = PStr (if passed then ''pass'' else ''fail''),
                   r_expected = expected, r_actual = actual, r_error = PNone,
                   r_hidden = snd tch, r_weight = weight\<rparr>],
                 totalWeight,
                 if passed then earnedWeight0 + weight else earnedWeight0)))
        else
          Inr (testResults @
               [\<lparr>r_label = label, r_status = ostatus,
                 r_expected = expected, r_actual = PNone,
                 r_error = (case outcome of PDict d \<Rightarrow> dict_get d ''error'' | _ \<Rightarrow> PNone),
                 r_hidden = snd tch, r_weight = weight\<rparr>],
               totalWeight, earnedWeight0)))"

fun evalLoop ::
  "platform \<Rightarrow> string \<Rightarrow> string \<Rightarrow> (testcase \<times> bool) list \<Rightarrow> testResult list \<times> int \<times> int
    \<Rightarrow> pyerr + testResult list \<times> int \<times> int" where
  "evalLoop P submittedCode preamble_text [] st = Inr st"
| "evalLoop P submittedCode preamble_text (tch # rest) st =
     ebind (evalTestCase P submittedCode preamble_text tch st)
       (evalLoop P submittedCode preamble_text rest)"

text \<open>\<^verbatim>\<open>int((earnedWeight / totalWeight) * 100) if totalWeight > 0 else 0\<close>\<close>

definition weightedScore :: "int \<Rightarrow> int \<Rightarrow> pyerr + int" where
  "weightedScore earnedWeight totalWeight =
     (if 0 < totalWeight then
        ebind (int_truediv earnedWeight totalWeight) (\<lambda>q.
        ebind (float_of_int 100) (\<lambda>h.
        int_of_float (fmul q h)))
      else Inr 0)"

definition runCorrectnessEvaluation :: "platform \<Rightarrow> string \<Rightarrow> problem \<Rightarrow> pyerr + correctnessResult" where
  "runCorrectnessEvaluation P submittedCode prob =
     (let preamble_text = (case preamble prob of None \<Rightarrow> [] | Some p \<Rightarrow> p);
          allTestCases = map (\<lambda>tc. (tc, False)) (testCases prob)
                       @ map (\<lambda>tc. (tc, True)) (hiddenTestCases prob)
      in
      ebind (evalLoop P submittedCode preamble_text allTestCases ([], 0, 0)) (\<lambda>st.
        case st of (testResults, totalWeight, earnedWeight) \<Rightarrow>
        ebind (weightedScore earnedWeight totalWeight) (\<lambda>score.
          Inr \<lparr>c_score = score,
               c_passed = int (length (filter (\<lambda>r. py_eq (r_status r) (PStr ''pass'')) testResults)),
               c_total = int (length allTestCases),
               c_testResults = testResults\<rparr>)))"

section \<open>Complexity evaluator (\<^verbatim>\<open>complexityEvaluator.py\<close>)\<close>

record FunctionMetrics =
  m_name :: string
  cyclomaticScore :: int
  maxNestDepth :: int
  isRecursive :: bool
  lineCount :: int

text \<open>
  \<^verbatim>\<open>_CyclomaticVisitor\<close>.  \<^verbatim>\<open>NodeVisitor.visit\<close> calls the method \<^verbatim>\<open>visit_\<close>\<open>C\<close> for a
  node of class \<open>C\<close> when the visitor defines it, and \<^verbatim>\<open>generic_visit\<close> otherwise.  The
  class defines \<^verbatim>\<open>visit_If\<close>, \<^verbatim>\<open>visit_For\<close>, \<^verbatim>\<open>visit_While\<close>, \<^verbatim>\<open>visit_ExceptHandler\<close>,
  \<^verbatim>\<open>visit_BoolOp\<close> and \<^verbatim>\<open>visit_comprehension\<close>; each adds to the count and then calls
  \<^verbatim>\<open>generic_visit\<close>, which visits the children in order.  The tuple
  \<^verbatim>\<open>DECISION_NODE_TYPES\<close> is defined in the class and used nowhere.
\<close>

definition DECISION_NODE_TYPES :: "string list" where
  "DECISION_NODE_TYPES =
     [''If'', ''For'', ''While'', ''ExceptHandler'', ''With'', ''Assert'', ''comprehension'']"

definition cyclomaticIncrement :: "node \<Rightarrow> int" where
  "cyclomaticIncrement n =
     (if cls n = ''If'' then 1
      else if cls n = ''For'' then 1
      else if cls n = ''While'' then 1
      else if cls n = ''ExceptHandler'' then 1
      else if cls n = ''BoolOp'' then int (length (field ''values'' n)) - 1
      else if cls n = ''comprehension'' then int (length (field ''ifs'' n))
      else 0)"

fun cyclomaticVisit :: "node \<Rightarrow> int \<Rightarrow> int" where
  "cyclomaticVisit (Node c l e s v ch) count =
     fold (\<lambda>kid acc. cyclomaticVisit (snd kid) acc) ch
       (count + cyclomaticIncrement (Node c l e s v ch))"

text \<open>\<^verbatim>\<open>_NestingDepthVisitor\<close>, with the state \<open>(maxDepth, _currentDepth)\<close>.\<close>

definition NESTING_NODES :: "string list" where
  "NESTING_NODES = [''For'', ''While'', ''If'']"

fun nestingVisit :: "node \<Rightarrow> int \<times> int \<Rightarrow> int \<times> int" where
  "nestingVisit (Node c l e s v ch) st =
     (if c = ''For'' \<or> c = ''While'' \<or> c = ''If'' then
        (let currentDepth = snd st + 1;
             maxDepth = max (fst st) currentDepth;
             st' = fold (\<lambda>kid acc. nestingVisit (snd kid) acc) ch (maxDepth, currentDepth)
         in (fst st', snd st' - 1))
      else fold (\<lambda>kid acc. nestingVisit (snd kid) acc) ch st)"

definition is_call_of_name :: "(string \<Rightarrow> bool) \<Rightarrow> node \<Rightarrow> bool" where
  "is_call_of_name p n =
     (cls n = ''Call'' \<and>
      (case field ''func'' n of
         [f] \<Rightarrow> cls f = ''Name'' \<and> (case sattr ''id'' f of Some i \<Rightarrow> p i | None \<Rightarrow> False)
       | _ \<Rightarrow> False))"

definition node_name :: "node \<Rightarrow> string" where
  "node_name n = (case sattr ''name'' n of Some x \<Rightarrow> x | None \<Rightarrow> [])"

definition detectRecursion :: "node \<Rightarrow> bool" where
  "detectRecursion funcNode =
     list_ex (is_call_of_name (\<lambda>i. i = node_name funcNode)) (walk funcNode)"

definition HINTS :: "(string \<times> string) list" where
  "HINTS =
    [(''sorted'', ''Uses sorted() '' @ EM_DASH @ '' O(n log n) time.''),
     (''sort'', ''Uses list.sort() '' @ EM_DASH @ '' O(n log n) in-place.''),
     (''set'', ''Uses set() '' @ EM_DASH @ '' O(n) construction, O(1) average lookup.''),
     (''dict'', ''Uses dict() '' @ EM_DASH @ '' O(n) construction, O(1) average lookup.''),
     (''reversed'', ''Uses reversed() '' @ EM_DASH @ '' O(n) traversal.'')]"

definition call_funcName :: "node \<Rightarrow> string option" where
  "call_funcName n =
     (case field ''func'' n of
        [f] \<Rightarrow> if cls f = ''Name'' then sattr ''id'' f
               else if cls f = ''Attribute'' then sattr ''attr'' f
               else None
      | _ \<Rightarrow> None)"

definition hintStep :: "node \<Rightarrow> string list \<Rightarrow> string list" where
  "hintStep n found =
     (if cls n = ''Call'' then
        (case call_funcName n of
           Some funcName \<Rightarrow>
             (if funcName \<noteq> [] then
                (case map_of HINTS funcName of
                   Some h \<Rightarrow> if h \<notin> set found then found @ [h] else found
                 | None \<Rightarrow> found)
              else found)
         | None \<Rightarrow> found)
      else found)"

definition detectBuiltinHints :: "node \<Rightarrow> string list" where
  "detectBuiltinHints tree = fold hintStep (walk tree) []"

definition functionScore :: "FunctionMetrics \<Rightarrow> int" where
  "functionScore m =
     (let score = 100;
          score = (if 10 < cyclomaticScore m
                   then score - min 30 ((cyclomaticScore m - 10) * 5)
                              - min 20 ((cyclomaticScore m - 5) * 3)
                   else if 5 < cyclomaticScore m
                   then score - min 20 ((cyclomaticScore m - 5) * 4)
                   else score);
          score = (if 2 < maxNestDepth m
                   then score - min 30 ((maxNestDepth m - 2) * 10)
                   else score)
      in max 0 score)"

text \<open>\<^verbatim>\<open>int(sum(functionScores) / len(functionScores))\<close>, or 50 for no function.\<close>

definition scoreFromMetrics :: "FunctionMetrics list \<Rightarrow> pyerr + int" where
  "scoreFromMetrics metrics =
     (if metrics = [] then Inr 50
      else ebind (int_truediv (sum_list (map functionScore metrics)) (int (length metrics)))
             int_of_float)"

record complexityResult =
  x_score :: int
  x_functions :: "FunctionMetrics list"
  x_builtinHints :: "string list"
  x_summary :: string
  x_warnings :: "string list"

definition analyseFunction :: "node \<Rightarrow> FunctionMetrics" where
  "analyseFunction n =
     \<lparr>m_name = node_name n,
      cyclomaticScore = cyclomaticVisit n 1,
      maxNestDepth = fst (nestingVisit n (0, 0)),
      isRecursive = detectRecursion n,
      lineCount = (case (end_lineno n, lineno n) of
                     (Some e, Some l) \<Rightarrow> e - l + 1
                   | _ \<Rightarrow> 0)\<rparr>"

definition functionWarnings :: "FunctionMetrics \<Rightarrow> string list" where
  "functionWarnings m =
     (if 10 < cyclomaticScore m
      then [[CHR 0x27] @ m_name m @ [CHR 0x27] @ '' has high cyclomatic complexity (''
            @ str_of_int (cyclomaticScore m) @ ''). ''
            @ ''Consider breaking it into smaller functions.'']
      else [])
     @ (if 3 < maxNestDepth m
        then [[CHR 0x27] @ m_name m @ [CHR 0x27] @ '' has deep nesting (depth=''
              @ str_of_int (maxNestDepth m) @ ''). ''
              @ ''This often indicates O(n^k) time complexity.'']
        else [])
     @ (if isRecursive m
        then [[CHR 0x27] @ m_name m @ [CHR 0x27] @ '' is recursive. Ensure base cases are correct ''
              @ ''and consider memoisation for overlapping subproblems.'']
        else [])"

text \<open>The \<^verbatim>\<open>:.1f\<close> rendering of a finite float: the value rounded to one decimal
  (half to even on the exact value).\<close>

fun fmt_1f :: "pyfloat \<Rightarrow> string" where
  "fmt_1f (Fin x) =
     (let t = rne (\<bar>x\<bar> * 10)
      in (if x < 0 then ''-'' else []) @ str_of_int (t div 10) @ ''.'' @ str_of_int (t mod 10))"
| "fmt_1f PosInf = ''inf''"
| "fmt_1f NegInf = ''-inf''"
| "fmt_1f NaN = ''nan''"

definition complexitySummary :: "FunctionMetrics list \<Rightarrow> int \<Rightarrow> pyerr + string" where
  "complexitySummary functionMetrics score =
     (if functionMetrics = [] then Inr ''No top-level functions detected.''
      else
        ebind (int_truediv (sum_list (map cyclomaticScore functionMetrics))
                (int (length functionMetrics))) (\<lambda>avgCyclomatic.
        Inr (''Analysed '' @ str_of_int (int (length functionMetrics)) @ '' function(s). ''
             @ ''Average cyclomatic complexity: '' @ fmt_1f avgCyclomatic @ ''. ''
             @ (if 80 \<le> score then ''No major complexity issues detected.''
                else ''Complexity issues found '' @ EM_DASH @ '' see warnings.''))))"

definition runComplexityEvaluation :: "platform \<Rightarrow> string \<Rightarrow> pyerr + complexityResult" where
  "runComplexityEvaluation P submittedCode =
     (case ast_parse P submittedCode of
        Inl exc \<Rightarrow>
          Inr \<lparr>x_score = 0, x_functions = [], x_builtinHints = [],
               x_summary = ''Syntax error '' @ EM_DASH @ '' could not parse: '' @ exc,
               x_warnings = [exc]\<rparr>
      | Inr tree \<Rightarrow>
          (let functionMetrics =
                 map analyseFunction
                   (filter (\<lambda>n. cls n = ''FunctionDef'' \<or> cls n = ''AsyncFunctionDef'') (walk tree));
               builtinHints = detectBuiltinHints tree
           in
           ebind (scoreFromMetrics functionMetrics) (\<lambda>score.
           ebind (complexitySummary functionMetrics score) (\<lambda>summary.
             Inr \<lparr>x_score = score, x_functions = functionMetrics,
                  x_builtinHints = builtinHints, x_summary = summary,
                  x_warnings = concat (map functionWarnings functionMetrics)\<rparr>))))"

section \<open>Style evaluator (\<^verbatim>\<open>styleEvaluator.py\<close>)\<close>

definition MAX_LINE_LENGTH :: nat where "MAX_LINE_LENGTH = 100"

definition VIOLATION_WEIGHTS :: "(string \<times> int) list" where
  "VIOLATION_WEIGHTS =
    [(''namingConvention'', 3),
     (''magicNumber'', 2),
     (''missingDocstring'', 4),
     (''lineTooLong'', 1),
     (''emptyExcept'', 8),
     (''bareExcept'', 6),
     (''mutableDefault'', 7),
     (''unusedImport'', 3),
     (''multipleReturnTypes'', 2)]"

definition is_lower :: "char \<Rightarrow> bool" where
  "is_lower c = (97 \<le> (of_char c :: nat) \<and> (of_char c :: nat) \<le> 122)"

definition is_upper :: "char \<Rightarrow> bool" where
  "is_upper c = (65 \<le> (of_char c :: nat) \<and> (of_char c :: nat) \<le> 90)"

definition is_digit :: "char \<Rightarrow> bool" where
  "is_digit c = (48 \<le> (of_char c :: nat) \<and> (of_char c :: nat) \<le> 57)"

text \<open>\<^verbatim>\<open>SNAKE_CASE_PATTERN.match(name)\<close> for \<^verbatim>\<open>^[a-z_][a-z0-9_]*$\<close>; the \<^verbatim>\<open>$\<close> also matches
  before one final newline.\<close>

definition snake_tail :: "string \<Rightarrow> bool" where
  "snake_tail cs = list_all (\<lambda>c. is_lower c \<or> is_digit c \<or> c = CHR ''_'') cs"

definition snake_case_match :: "string \<Rightarrow> bool" where
  "snake_case_match name =
     (case name of
        [] \<Rightarrow> False
      | c # cs \<Rightarrow> (is_lower c \<or> c = CHR ''_'') \<and>
                 (snake_tail cs \<or> (cs \<noteq> [] \<and> [last cs] = NL \<and> snake_tail (butlast cs))))"

text \<open>\<^verbatim>\<open>str.isupper\<close> and \<^verbatim>\<open>str.lower\<close>, on ASCII letters.\<close>

definition py_isupper :: "string \<Rightarrow> bool" where
  "py_isupper s = (list_ex is_upper s \<and> \<not> list_ex is_lower s)"

definition py_lower :: "string \<Rightarrow> string" where
  "py_lower s = map (\<lambda>c. if is_upper c then char_of ((of_char c :: nat) + 32) else c) s"

definition QT :: string where "QT = [CHR 0x27]"
definition BT :: string where "BT = [CHR 0x60]"

text \<open>The line number of a node inside a message; \<^verbatim>\<open>getattr(node, 'lineno', '?')\<close> where
  the node has none.\<close>

definition lineno_str :: "node \<Rightarrow> string" where
  "lineno_str n = (case lineno n of Some l \<Rightarrow> str_of_int l | None \<Rightarrow> ''?'')"

definition is_functionDef :: "node \<Rightarrow> bool" where
  "is_functionDef n = (cls n = ''FunctionDef'' \<or> cls n = ''AsyncFunctionDef'')"

definition namingSubject :: "node \<Rightarrow> (string \<times> string) option" where
  "namingSubject n =
     (if is_functionDef n then Some (node_name n, ''Function'')
      else if cls n = ''Name'' \<and> list_ex (\<lambda>c. cls c = ''Store'') (field ''ctx'' n)
        then Some (case sattr ''id'' n of Some i \<Rightarrow> i | None \<Rightarrow> [], ''Variable'')
      else None)"

definition namingViolation :: "node \<Rightarrow> string list" where
  "namingViolation n =
     (case namingSubject n of
        None \<Rightarrow> []
      | Some (name, kind) \<Rightarrow>
          (if name \<noteq> [] \<and> take 1 name \<noteq> ''_'' \<and> \<not> snake_case_match name
           then (if \<not> py_isupper name
                 then [kind @ '' '' @ QT @ name @ QT @ '' at line '' @ lineno_str n @ '' ''
                       @ ''should use snake_case (PEP 8).'']
                 else [])
           else []))"

definition checkNaming :: "node \<Rightarrow> string list" where
  "checkNaming tree = concat (map namingViolation (walk tree))"

definition has_docstring :: "node \<Rightarrow> bool" where
  "has_docstring n =
     (case field ''body'' n of
        [] \<Rightarrow> False
      | b # bs \<Rightarrow> cls b = ''Expr'' \<and>
          (case field ''value'' b of
             [v] \<Rightarrow> cls v = ''Constant'' \<and> (case cvalue v of Some (CStr t) \<Rightarrow> True | _ \<Rightarrow> False)
           | _ \<Rightarrow> False))"

definition docstringViolation :: "node \<Rightarrow> string list" where
  "docstringViolation n =
     (if (is_functionDef n \<or> cls n = ''ClassDef'') \<and> \<not> has_docstring n
      then [QT @ node_name n @ QT @ '' at line '' @ lineno_str n @ '' is missing a docstring.'']
      else [])"

definition checkDocstrings :: "node \<Rightarrow> string list" where
  "checkDocstrings tree = concat (map docstringViolation (walk tree))"

text \<open>\<^verbatim>\<open>ALLOWED_MAGIC_NUMBERS = {0, 1, -1, 2, 10, 100}\<close>; membership compares numerically,
  so \<^verbatim>\<open>True\<close>, \<^verbatim>\<open>False\<close> and \<^verbatim>\<open>2.0\<close> are members.\<close>

definition ALLOWED_MAGIC_NUMBERS :: "rat list" where
  "ALLOWED_MAGIC_NUMBERS = [0, 1, - 1, 2, 10, 100]"

fun magicNumberText :: "platform \<Rightarrow> constval \<Rightarrow> string option" where
  "magicNumberText P (CBool b) =
     (if (if b then 1 else 0) \<in> set ALLOWED_MAGIC_NUMBERS then None
      else Some (if b then ''True'' else ''False''))"
| "magicNumberText P (CInt i) =
     (if of_int i \<in> set ALLOWED_MAGIC_NUMBERS then None else Some (str_of_int i))"
| "magicNumberText P (CFloat (Fin x)) =
     (if x \<in> set ALLOWED_MAGIC_NUMBERS then None else Some (py_str P (PFloat (Fin x))))"
| "magicNumberText P (CFloat f) = Some (py_str P (PFloat f))"
| "magicNumberText P c = None"

definition magicNumberViolation :: "platform \<Rightarrow> node \<Rightarrow> string list" where
  "magicNumberViolation P n =
     (if cls n = ''Constant'' then
        (case cvalue n of
           None \<Rightarrow> []
         | Some c \<Rightarrow>
             (case magicNumberText P c of
                None \<Rightarrow> []
              | Some t \<Rightarrow> [''Magic number '' @ QT @ t @ QT @ '' at line '' @ lineno_str n @ ''. ''
                           @ ''Consider extracting to a named constant.'']))
      else [])"

definition checkMagicNumbers :: "platform \<Rightarrow> node \<Rightarrow> string list" where
  "checkMagicNumbers P tree = concat (map (magicNumberViolation P) (walk tree))"

definition lineLengthViolation :: "nat \<times> string \<Rightarrow> string list" where
  "lineLengthViolation il =
     (if MAX_LINE_LENGTH < length (py_rstrip (snd il))
      then [''Line '' @ str_of_int (int (fst il)) @ '' is ''
            @ str_of_int (int (length (py_rstrip (snd il)))) @ '' characters ''
            @ ''(limit: '' @ str_of_int (int MAX_LINE_LENGTH) @ '').'']
      else [])"

definition checkLineLengths :: "string list \<Rightarrow> string list" where
  "checkLineLengths sourceLines =
     concat (map lineLengthViolation (zip [1 ..< Suc (length sourceLines)] sourceLines))"

text \<open>\<^verbatim>\<open>_checkEmptyAndBareExcept\<close> returns both kinds of violation in one list.\<close>

definition exceptViolation :: "node \<Rightarrow> string list" where
  "exceptViolation n =
     (if cls n = ''ExceptHandler'' then
        (let isBodyJustPass = (case field ''body'' n of [b] \<Rightarrow> cls b = ''Pass'' | _ \<Rightarrow> False) in
         if field ''type'' n = [] then
           [''Bare '' @ BT @ ''except:'' @ BT @ '' at line '' @ lineno_str n @ '' catches ALL exceptions ''
            @ ''including SystemExit and KeyboardInterrupt. Be specific.'']
         else if isBodyJustPass then
           [BT @ ''except'' @ BT @ '' at line '' @ lineno_str n @ '' has an empty body (''
            @ BT @ ''pass'' @ BT @ ''). ''
            @ ''Silently swallowing exceptions hides bugs.'']
         else [])
      else [])"

definition checkEmptyAndBareExcept :: "node \<Rightarrow> string list" where
  "checkEmptyAndBareExcept tree = concat (map exceptViolation (walk tree))"

definition mutableDefaultViolation :: "node \<Rightarrow> string list" where
  "mutableDefaultViolation n =
     (if is_functionDef n then
        concat (map (\<lambda>a.
          concat (map (\<lambda>default.
            if cls default = ''List'' \<or> cls default = ''Dict'' \<or> cls default = ''Set''
            then [QT @ node_name n @ QT @ '' at line '' @ lineno_str n @ '' uses a mutable default ''
                  @ ''argument ('' @ py_lower (cls default) @ '' literal). Use '' @ BT @ ''None'' @ BT
                  @ '' and initialise inside.'']
            else [])
            (field ''defaults'' a @ field ''kw_defaults'' a)))
          (field ''args'' n))
      else [])"

definition checkMutableDefaults :: "node \<Rightarrow> string list" where
  "checkMutableDefaults tree = concat (map mutableDefaultViolation (walk tree))"

definition alias_name :: "node \<Rightarrow> string" where
  "alias_name a = (case sattr ''name'' a of Some x \<Rightarrow> x | None \<Rightarrow> [])"

text \<open>\<^verbatim>\<open>alias.asname or \<close>\<open>other\<close>\<close>

definition asname_or :: "node \<Rightarrow> string \<Rightarrow> string" where
  "asname_or a other = (case sattr ''asname'' a of Some x \<Rightarrow> if x \<noteq> [] then x else other | None \<Rightarrow> other)"

definition unusedImportViolation :: "string \<Rightarrow> node \<Rightarrow> string list" where
  "unusedImportViolation sourceCode n =
     (if cls n = ''Import'' then
        concat (map (\<lambda>a.
          let usedName = asname_or a (takeWhile (\<lambda>c. c \<noteq> CHR ''.'') (alias_name a)) in
          if str_count usedName sourceCode \<le> 1
          then [''Import '' @ QT @ alias_name a @ QT @ '' at line '' @ lineno_str n
                @ '' appears unused.'']
          else [])
          (field ''names'' n))
      else if cls n = ''ImportFrom'' then
        concat (map (\<lambda>a.
          let usedName = asname_or a (alias_name a) in
          if usedName \<noteq> ''*'' \<and> str_count usedName sourceCode \<le> 1
          then [''Import '' @ QT @ alias_name a @ QT @ '' from '' @ QT
                @ (case sattr ''module'' n of Some m \<Rightarrow> m | None \<Rightarrow> ''None'') @ QT @ '' ''
                @ ''at line '' @ lineno_str n @ '' appears unused.'']
          else [])
          (field ''names'' n))
      else [])"

definition checkUnusedImports :: "node \<Rightarrow> string \<Rightarrow> string list" where
  "checkUnusedImports tree sourceCode = concat (map (unusedImportViolation sourceCode) (walk tree))"

text \<open>\<^verbatim>\<open>_computeScore\<close> of the style evaluator; a category without a weight counts 2.\<close>

definition styleComputeScore :: "(string \<times> string list) list \<Rightarrow> int" where
  "styleComputeScore violationsByType =
     (let totalDeduction =
            fold (\<lambda>kv total.
                    total + int (length (snd kv))
                            * (case map_of VIOLATION_WEIGHTS (fst kv) of Some w \<Rightarrow> w | None \<Rightarrow> 2))
              violationsByType 0
      in max 0 (100 - totalDeduction))"

record styleResult =
  s_score :: int
  s_violations :: "(string \<times> string list) list"
  s_totalViolations :: int
  s_summary :: string

definition runStyleEvaluation :: "platform \<Rightarrow> string \<Rightarrow> styleResult" where
  "runStyleEvaluation P submittedCode =
     (let sourceLines = py_splitlines submittedCode in
      case ast_parse P submittedCode of
        Inl exc \<Rightarrow>
          \<lparr>s_score = 0, s_violations = [], s_totalViolations = 0,
           s_summary = ''Syntax error '' @ EM_DASH @ '' style checks skipped: '' @ exc\<rparr>
      | Inr tree \<Rightarrow>
          (let violations0 =
                 [(''namingConvention'', checkNaming tree),
                  (''missingDocstring'', checkDocstrings tree),
                  (''magicNumber'', checkMagicNumbers P tree),
                  (''lineTooLong'', checkLineLengths sourceLines),
                  (''emptyExcept'', checkEmptyAndBareExcept tree),
                  (''mutableDefault'', checkMutableDefaults tree),
                  (''unusedImport'', checkUnusedImports tree submittedCode)];
               violations = filter (\<lambda>kv. snd kv \<noteq> []) violations0;
               totalViolations = sum_list (map (\<lambda>kv. int (length (snd kv))) violations);
               score = styleComputeScore violations;
               summary =
                 (if 0 < totalViolations
                  then ''Found '' @ str_of_int totalViolations @ '' style violation(s) across ''
                       @ str_of_int (int (length violations)) @ '' category/categories.''
                  else ''No style violations detected. Clean code!'')
           in \<lparr>s_score = score, s_violations = violations,
                s_totalViolations = totalViolations, s_summary = summary\<rparr>))"

section \<open>Security evaluator (\<^verbatim>\<open>securityEvaluator.py\<close>)\<close>

datatype severity = critical | high | medium | low

record SecurityFinding =
  f_severity :: severity
  f_category :: string
  f_description :: string
  f_line :: int

fun SEVERITY_DEDUCTIONS :: "severity \<Rightarrow> int" where
  "SEVERITY_DEDUCTIONS critical = 30"
| "SEVERITY_DEDUCTIONS high = 15"
| "SEVERITY_DEDUCTIONS medium = 8"
| "SEVERITY_DEDUCTIONS low = 3"

fun severity_name :: "severity \<Rightarrow> string" where
  "severity_name critical = ''critical''"
| "severity_name high = ''high''"
| "severity_name medium = ''medium''"
| "severity_name low = ''low''"

definition SECRET_PATTERNS :: "(pattern \<times> string) list" where
  "SECRET_PATTERNS =
    [(PasswordPattern, ''Hardcoded password''),
     (ApiKeyPattern, ''Hardcoded API key''),
     (TokenPattern, ''Hardcoded token''),
     (AwsSecretPattern, ''Hardcoded AWS secret'')]"

definition DANGEROUS :: "(string \<times> severity \<times> string) list" where
  "DANGEROUS =
    [(''eval'', critical, ''eval() executes arbitrary code. Never use on untrusted input.''),
     (''exec'', critical, ''exec() executes arbitrary code. Never use on untrusted input.''),
     (''__import__'', high, ''__import__() bypasses normal import controls.'')]"

text \<open>The keys of \<^verbatim>\<open>DANGEROUS_ATTRS\<close> are pairs of a module name and an attribute name;
  the module name of a call whose receiver is not a plain name is \<^verbatim>\<open>None\<close>, which is
  no key.\<close>

definition DANGEROUS_ATTRS :: "((string \<times> string) \<times> severity \<times> string) list" where
  "DANGEROUS_ATTRS =
    [((''os'', ''system''), high,
        ''os.system() is vulnerable to shell injection. Use subprocess with a list.''),
     ((''os'', ''popen''), high, ''os.popen() is vulnerable to shell injection.''),
     ((''subprocess'', ''call''), medium,
        ''subprocess.call() with shell=True is vulnerable to injection.''),
     ((''subprocess'', ''Popen''), medium,
        ''subprocess.Popen '' @ EM_DASH @ '' ensure shell=False and avoid string commands.''),
     ((''pickle'', ''loads''), high,
        ''pickle.loads() on untrusted data enables arbitrary code execution.''),
     ((''pickle'', ''load''), high,
        ''pickle.load() on untrusted data enables arbitrary code execution.''),
     ((''marshal'', ''loads''), high,
        ''marshal.loads() deserialises bytecode '' @ EM_DASH @ '' never use on untrusted data.''),
     ((''yaml'', ''load''), medium,
        ''yaml.load() without Loader= is unsafe. Use yaml.safe_load().'')]"

definition lineno_or_0 :: "node \<Rightarrow> int" where
  "lineno_or_0 n = (case lineno n of Some l \<Rightarrow> l | None \<Rightarrow> 0)"

fun const_truthy :: "constval \<Rightarrow> bool" where
  "const_truthy CNone = False"
| "const_truthy (CBool b) = b"
| "const_truthy (CInt i) = (i \<noteq> 0)"
| "const_truthy (CFloat f) = (f \<noteq> Fin 0)"
| "const_truthy (CStr t) = (t \<noteq> [])"
| "const_truthy (CBytes t) = (t \<noteq> [])"
| "const_truthy CEllipsis = True"
| "const_truthy (CImaginary f) = (f \<noteq> Fin 0)"

definition shellKeywordFindings :: "node \<Rightarrow> int \<Rightarrow> SecurityFinding list" where
  "shellKeywordFindings n lineNo =
     concat (map (\<lambda>kw.
       if sattr ''arg'' kw = Some ''shell'' \<and>
          (case field ''value'' kw of
             [v] \<Rightarrow> cls v = ''Constant'' \<and> (case cvalue v of Some c \<Rightarrow> const_truthy c | None \<Rightarrow> False)
           | _ \<Rightarrow> False)
       then [\<lparr>f_severity = high, f_category = ''ShellInjection'',
              f_description = ''subprocess called with shell=True '' @ EM_DASH
                @ '' vulnerable to shell injection if input is user-controlled.'',
              f_line = lineNo\<rparr>]
       else [])
       (field ''keywords'' n))"

definition dangerousCallFindings :: "node \<Rightarrow> SecurityFinding list" where
  "dangerousCallFindings n =
     (if cls n \<noteq> ''Call'' then []
      else
        (let lineNo = lineno_or_0 n in
         (case field ''func'' n of
            [f] \<Rightarrow>
              (if cls f = ''Name'' then
                 (case map_of DANGEROUS (case sattr ''id'' f of Some i \<Rightarrow> i | None \<Rightarrow> []) of
                    Some (sev, desc) \<Rightarrow>
                      [\<lparr>f_severity = sev, f_category = ''DangerousBuiltin'',
                        f_description = desc, f_line = lineNo\<rparr>]
                  | None \<Rightarrow> [])
               else [])
              @ (if cls f = ''Attribute'' then
                   (let moduleName =
                          (case field ''value'' f of
                             [v] \<Rightarrow> if cls v = ''Name'' then sattr ''id'' v else None
                           | _ \<Rightarrow> None);
                        attrName = (case sattr ''attr'' f of Some a \<Rightarrow> a | None \<Rightarrow> [])
                    in case moduleName of
                         None \<Rightarrow> []
                       | Some m \<Rightarrow>
                           (case map_of DANGEROUS_ATTRS (m, attrName) of
                              Some (sev, desc) \<Rightarrow>
                                \<lparr>f_severity = sev, f_category = ''DangerousAPI'',
                                 f_description = desc, f_line = lineNo\<rparr>
                                # (if m = ''subprocess'' then shellKeywordFindings n lineNo else [])
                            | None \<Rightarrow> []))
                 else [])
          | _ \<Rightarrow> [])))"

definition checkDangerousCalls :: "node \<Rightarrow> SecurityFinding list" where
  "checkDangerousCalls tree = concat (map dangerousCallFindings (walk tree))"

definition SECURITY_KEYWORDS :: "string list" where
  "SECURITY_KEYWORDS = [''auth'', ''admin'', ''permission'', ''valid'', ''token'', ''role'', ''access'']"

definition assertFindings :: "platform \<Rightarrow> node \<Rightarrow> SecurityFinding list" where
  "assertFindings P n =
     (if cls n \<noteq> ''Assert'' then []
      else
        (case field ''test'' n of
           [t] \<Rightarrow>
             (case ast_unparse P t of
                None \<Rightarrow> []
              | Some src \<Rightarrow>
                  (let testSource = py_lower src in
                   if list_ex (\<lambda>kw. str_contains kw testSource) SECURITY_KEYWORDS
                   then [\<lparr>f_severity = high, f_category = ''AssertForSecurity'',
                          f_description =
                            ''assert used for security check at line '' @ lineno_str n @ ''. ''
                            @ ''Assertions are stripped with '' @ BT @ ''python -O'' @ BT
                            @ ''. Use explicit if/raise.'',
                          f_line = lineno_or_0 n\<rparr>]
                   else []))
         | _ \<Rightarrow> []))"

definition checkAssertForSecurity :: "platform \<Rightarrow> node \<Rightarrow> SecurityFinding list" where
  "checkAssertForSecurity P tree = concat (map (assertFindings P) (walk tree))"

text \<open>\<^verbatim>\<open>sourceCode[:match.start()].count("\n") + 1\<close>\<close>

definition line_of_offset :: "string \<Rightarrow> nat \<Rightarrow> int" where
  "line_of_offset sourceCode start = int (str_count NL (take start sourceCode)) + 1"

definition checkHardcodedSecrets :: "platform \<Rightarrow> string \<Rightarrow> SecurityFinding list" where
  "checkHardcodedSecrets P sourceCode =
     concat (map (\<lambda>pl.
       map (\<lambda>start.
         let lineNo = line_of_offset sourceCode start in
         \<lparr>f_severity = critical, f_category = ''HardcodedSecret'',
          f_description = snd pl @ '' detected at line '' @ str_of_int lineNo @ ''. ''
            @ ''Store secrets in environment variables or a secrets manager.'',
          f_line = lineNo\<rparr>)
         (re_finditer P (fst pl) sourceCode))
       SECRET_PATTERNS)"

definition checkSqlInjection :: "platform \<Rightarrow> string \<Rightarrow> SecurityFinding list" where
  "checkSqlInjection P sourceCode =
     map (\<lambda>start.
       let lineNo = line_of_offset sourceCode start in
       \<lparr>f_severity = high, f_category = ''SQLInjection'',
        f_description = ''Possible SQL injection at line '' @ str_of_int lineNo @ ''. ''
          @ ''Use parameterised queries instead of string formatting.'',
        f_line = lineNo\<rparr>)
       (re_finditer P SqlInjectionPattern sourceCode)"

text \<open>\<^verbatim>\<open>_computeScore\<close> of the security evaluator.\<close>

definition securityComputeScore :: "SecurityFinding list \<Rightarrow> int" where
  "securityComputeScore findings =
     (let totalDeduction = sum_list (map (\<lambda>f. SEVERITY_DEDUCTIONS (f_severity f)) findings)
      in max 0 (100 - totalDeduction))"

record securityResult =
  k_score :: int
  k_findings :: "SecurityFinding list"
  k_summary :: string

fun join_comma :: "string list \<Rightarrow> string" where
  "join_comma [] = []"
| "join_comma [x] = x"
| "join_comma (x # y # ys) = x @ '', '' @ join_comma (y # ys)"

definition securitySummary :: "SecurityFinding list \<Rightarrow> string" where
  "securitySummary allFindings =
     (if allFindings = [] then ''No security issues detected.''
      else
        (let parts =
               concat (map (\<lambda>k.
                 let v = length (filter (\<lambda>f. f_severity f = k) allFindings) in
                 if 0 < v then [str_of_int (int v) @ '' '' @ severity_name k] else [])
                 [critical, high, medium, low])
         in ''Found '' @ str_of_int (int (length allFindings)) @ '' security finding(s): ''
            @ join_comma parts @ ''.''))"

text \<open>On a \<^verbatim>\<open>SyntaxError\<close> the initial result (score 100, no findings) is returned with
  the summary set; none of the four checks has run at that point.\<close>

definition runSecurityEvaluation :: "platform \<Rightarrow> string \<Rightarrow> securityResult" where
  "runSecurityEvaluation P submittedCode =
     (case ast_parse P submittedCode of
        Inl exc \<Rightarrow>
          \<lparr>k_score = 100, k_findings = [],
           k_summary = ''Syntax error '' @ EM_DASH @ '' security checks skipped: '' @ exc\<rparr>
      | Inr tree \<Rightarrow>
          (let allFindings =
                 checkDangerousCalls tree
                 @ checkAssertForSecurity P tree
                 @ checkHardcodedSecrets P submittedCode
                 @ checkSqlInjection P submittedCode
           in \<lparr>k_score = securityComputeScore allFindings,
                k_findings = allFindings,
                k_summary = securitySummary allFindings\<rparr>))"

section \<open>Report builder (\<^verbatim>\<open>reportGenerator.py\<close>)\<close>

datatype dimension = Correctness | Complexity | Style | Security

text \<open>\<^verbatim>\<open>SCORE_WEIGHTS = {"correctness": 0.50, "complexity": 0.20, "style": 0.15, "security": 0.15}\<close>\<close>

fun SCORE_WEIGHTS :: "dimension \<Rightarrow> pyfloat" where
  "SCORE_WEIGHTS Correctness = float_lit (50 / 100)"
| "SCORE_WEIGHTS Complexity = float_lit (20 / 100)"
| "SCORE_WEIGHTS Style = float_lit (15 / 100)"
| "SCORE_WEIGHTS Security = float_lit (15 / 100)"

definition GRADE_THRESHOLDS :: "(int \<times> string \<times> string) list" where
  "GRADE_THRESHOLDS =
    [(90, ''A'', ''Excellent '' @ EM_DASH @ '' production-ready quality.''),
     (80, ''B'', ''Good '' @ EM_DASH @ '' minor improvements suggested.''),
     (70, ''C'', ''Acceptable '' @ EM_DASH @ '' several areas need attention.''),
     (60, ''D'', ''Below average '' @ EM_DASH @ '' significant issues present.''),
     (0, ''F'', ''Failing '' @ EM_DASH @ '' fundamental problems detected.'')]"

text \<open>The weighted sum is evaluated left to right in double precision, then
  \<^verbatim>\<open>int(round(weighted))\<close>.\<close>

definition computeOverallScore :: "int \<Rightarrow> int \<Rightarrow> int \<Rightarrow> int \<Rightarrow> pyerr + int" where
  "computeOverallScore correctnessScore complexityScore styleScore securityScore =
     ebind (int_times_float correctnessScore (SCORE_WEIGHTS Correctness)) (\<lambda>a.
     ebind (int_times_float complexityScore (SCORE_WEIGHTS Complexity)) (\<lambda>b.
     ebind (int_times_float styleScore (SCORE_WEIGHTS Style)) (\<lambda>c.
     ebind (int_times_float securityScore (SCORE_WEIGHTS Security)) (\<lambda>d.
     py_round (fadd (fadd (fadd a b) c) d)))))"

text \<open>The \<^verbatim>\<open>for threshold, grade, label in GRADE_THRESHOLDS\<close> loop, with the
  fall-through return after it.\<close>

fun gradeLoop :: "(int \<times> string \<times> string) list \<Rightarrow> int \<Rightarrow> string \<times> string" where
  "gradeLoop [] overallScore = (''F'', ''Failing'')"
| "gradeLoop ((threshold, grade, label) # rest) overallScore =
     (if threshold \<le> overallScore then (grade, label) else gradeLoop rest overallScore)"

definition assignGrade :: "int \<Rightarrow> string \<times> string" where
  "assignGrade overallScore = gradeLoop GRADE_THRESHOLDS overallScore"

text \<open>\<^verbatim>\<open>_buildRecommendations\<close>: correctness, then security, complexity and style.\<close>

definition buildRecommendations ::
  "correctnessResult \<Rightarrow> complexityResult \<Rightarrow> styleResult \<Rightarrow> securityResult \<Rightarrow> string list" where
  "buildRecommendations correctness complexity style security =
     (let failedTests =
            filter (\<lambda>t. py_eq (r_status t) (PStr ''fail'') \<or> py_eq (r_status t) (PStr ''error'')
                        \<or> py_eq (r_status t) (PStr ''timeout''))
              (c_testResults correctness);
          criticalFindings =
            filter (\<lambda>f. f_severity f = critical \<or> f_severity f = high) (k_findings security);
          highImpactCategories = [''emptyExcept'', ''mutableDefault'', ''bareExcept'', ''missingDocstring'']
      in take 8
           ((if failedTests \<noteq> []
             then [''Fix '' @ str_of_int (int (length failedTests)) @ '' failing test case(s). ''
                   @ ''Start with visible failures before tackling hidden edge cases.'']
             else [])
            @ map (\<lambda>f. ''[Security] '' @ f_description f) (take 3 criticalFindings)
            @ map (\<lambda>w. ''[Complexity] '' @ w) (take 2 (x_warnings complexity))
            @ concat (map (\<lambda>category.
                case map_of (s_violations style) category of
                  Some (firstViolation # others) \<Rightarrow> [''[Style] '' @ firstViolation]
                | _ \<Rightarrow> [])
                highImpactCategories)))"

text \<open>The report, without its time stamp and the problem's identification fields, which
  are copied through.\<close>

record report =
  codeLength :: int
  overallScore :: int
  grade :: string
  gradeLabel :: string
  rep_correctness :: correctnessResult
  rep_complexity :: complexityResult
  rep_style :: styleResult
  rep_security :: securityResult
  recommendations :: "string list"

definition buildReport ::
  "string \<Rightarrow> correctnessResult \<Rightarrow> complexityResult \<Rightarrow> styleResult \<Rightarrow> securityResult
    \<Rightarrow> pyerr + report" where
  "buildReport code correctness complexity style security =
     ebind (computeOverallScore (c_score correctness) (x_score complexity) (s_score style)
              (k_score security)) (\<lambda>overall.
       Inr \<lparr>codeLength = int (length (py_splitlines code)),
            overallScore = overall,
            grade = fst (assignGrade overall),
            gradeLabel = snd (assignGrade overall),
            rep_correctness = correctness,
            rep_complexity = complexity,
            rep_style = style,
            rep_security = security,
            recommendations = buildRecommendations correctness complexity style security\<rparr>)"

text \<open>The evaluation of one request (\<^verbatim>\<open>evaluateCode\<close> in \<^verbatim>\<open>app.py\<close>, once the request is
  read and the problem loaded): the four evaluators in sequence, then the report.\<close>

definition evaluateCode :: "platform \<Rightarrow> string \<Rightarrow> problem \<Rightarrow> pyerr + report" where
  "evaluateCode P submittedCode prob =
     ebind (runCorrectnessEvaluation P submittedCode prob) (\<lambda>correctnessResult.
     ebind (runComplexityEvaluation P submittedCode) (\<lambda>complexityResult.
       let styleResult = runStyleEvaluation P submittedCode;
           securityResult = runSecurityEvaluation P submittedCode
       in buildReport submittedCode correctnessResult complexityResult styleResult securityResult))"

section \<open>Example inputs\<close>

text \<open>The submissions used in the examples below, the trees \<^verbatim>\<open>ast.parse\<close> builds for
  them, and a platform that behaves on them as CPython 3.11 does.\<close>

text \<open>A function with a \<^verbatim>\<open>with\<close> block and an \<^verbatim>\<open>assert\<close>.\<close>

definition src_with_assert :: string where
  "src_with_assert =
     ''def f(p):'' @ NL @
     ''    with open(p) as h:'' @ NL @
     ''        assert h'' @ NL @
     ''    return 1'' @ NL"

definition tree_with_assert :: node where
  "tree_with_assert =
     Node ''Module'' (None) (None) [] (None) [
       (''body'', Node ''FunctionDef'' (Some 1) (Some 4) [(''name'', ''f'')] (None) [
         (''args'', Node ''arguments'' (None) (None) [] (None) [
           (''args'', Node ''arg'' (Some 1) (Some 1) [(''arg'', ''p'')] (None) [])]),
         (''body'', Node ''With'' (Some 2) (Some 3) [] (None) [
           (''items'', Node ''withitem'' (None) (None) [] (None) [
             (''context_expr'', Node ''Call'' (Some 2) (Some 2) [] (None) [
               (''func'', Node ''Name'' (Some 2) (Some 2) [(''id'', ''open'')] (None) [
                 (''ctx'', Node ''Load'' (None) (None) [] (None) [])]),
               (''args'', Node ''Name'' (Some 2) (Some 2) [(''id'', ''p'')] (None) [
                 (''ctx'', Node ''Load'' (None) (None) [] (None) [])])]),
             (''optional_vars'', Node ''Name'' (Some 2) (Some 2) [(''id'', ''h'')] (None) [
               (''ctx'', Node ''Store'' (None) (None) [] (None) [])])]),
           (''body'', Node ''Assert'' (Some 3) (Some 3) [] (None) [
             (''test'', Node ''Name'' (Some 3) (Some 3) [(''id'', ''h'')] (None) [
               (''ctx'', Node ''Load'' (None) (None) [] (None) [])])])]),
         (''body'', Node ''Return'' (Some 4) (Some 4) [] (None) [
           (''value'', Node ''Constant'' (Some 4) (Some 4) [] (Some (CInt 1)) [])])])]"

text \<open>A \<^verbatim>\<open>try\<close> with a bare \<^verbatim>\<open>except:\<close> whose body is not \<^verbatim>\<open>pass\<close>.\<close>

definition src_bare_except :: string where
  "src_bare_except =
     ''try:'' @ NL @
     ''    x = 1'' @ NL @
     ''except:'' @ NL @
     ''    x = 2'' @ NL"

definition tree_bare_except :: node where
  "tree_bare_except =
     Node ''Module'' (None) (None) [] (None) [
       (''body'', Node ''Try'' (Some 1) (Some 4) [] (None) [
         (''body'', Node ''Assign'' (Some 2) (Some 2) [] (None) [
           (''targets'', Node ''Name'' (Some 2) (Some 2) [(''id'', ''x'')] (None) [
             (''ctx'', Node ''Store'' (None) (None) [] (None) [])]),
           (''value'', Node ''Constant'' (Some 2) (Some 2) [] (Some (CInt 1)) [])]),
         (''handlers'', Node ''ExceptHandler'' (Some 3) (Some 4) [] (None) [
           (''body'', Node ''Assign'' (Some 4) (Some 4) [] (None) [
             (''targets'', Node ''Name'' (Some 4) (Some 4) [(''id'', ''x'')] (None) [
               (''ctx'', Node ''Store'' (None) (None) [] (None) [])]),
             (''value'', Node ''Constant'' (Some 4) (Some 4) [] (Some (CInt 2)) [])])])])]"

text \<open>A submission that does not parse and assigns a password literal in its first line.\<close>

definition src_secret_unparsable :: string where
  "src_secret_unparsable =
     ''password = '' @ DQ @ ''hunter2'' @ DQ @ NL @
     ''def f(:'' @ NL"

text \<open>A submission that answers \<^verbatim>\<open>solve(1)\<close> with \<^verbatim>\<open>None\<close> and loops on any other argument,
  and one that prints \<^verbatim>\<open>42\<close> and leaves the interpreter through \<^verbatim>\<open>sys.exit\<close>, which the
  driver's \<^verbatim>\<open>except Exception\<close> does not catch.\<close>

definition src_solve_one :: string where
  "src_solve_one =
     ''def solve(n):'' @ NL @
     ''    if n == 1:'' @ NL @
     ''        return None'' @ NL @
     ''    while True:'' @ NL @
     ''        pass'' @ NL"

definition src_print_exit :: string where
  "src_print_exit =
     ''import sys'' @ NL @
     ''def solve(n):'' @ NL @
     ''    print(42)'' @ NL @
     ''    sys.exit(0)'' @ NL"

definition tree_solve_one :: node where
  "tree_solve_one =
     Node ''Module'' (None) (None) [] (None) [
       (''body'', Node ''FunctionDef'' (Some 1) (Some 5) [(''name'', ''solve'')] (None) [
         (''args'', Node ''arguments'' (None) (None) [] (None) [
           (''args'', Node ''arg'' (Some 1) (Some 1) [(''arg'', ''n'')] (None) [])]),
         (''body'', Node ''If'' (Some 2) (Some 3) [] (None) [
           (''test'', Node ''Compare'' (Some 2) (Some 2) [] (None) [
             (''left'', Node ''Name'' (Some 2) (Some 2) [(''id'', ''n'')] (None) [
               (''ctx'', Node ''Load'' (None) (None) [] (None) [])]),
             (''ops'', Node ''Eq'' (None) (None) [] (None) []),
             (''comparators'', Node ''Constant'' (Some 2) (Some 2) [] (Some (CInt 1)) [])]),
           (''body'', Node ''Return'' (Some 3) (Some 3) [] (None) [
             (''value'', Node ''Constant'' (Some 3) (Some 3) [] (Some (CNone)) [])])]),
         (''body'', Node ''While'' (Some 4) (Some 5) [] (None) [
           (''test'', Node ''Constant'' (Some 4) (Some 4) [] (Some (CBool True)) []),
           (''body'', Node ''Pass'' (Some 5) (Some 5) [] (None) [])])])]"

definition tree_print_exit :: node where
  "tree_print_exit =
     Node ''Module'' (None) (None) [] (None) [
       (''body'', Node ''Import'' (Some 1) (Some 1) [] (None) [
         (''names'', Node ''alias'' (Some 1) (Some 1) [(''name'', ''sys'')] (None) [])]),
       (''body'', Node ''FunctionDef'' (Some 2) (Some 4) [(''name'', ''solve'')] (None) [
         (''args'', Node ''arguments'' (None) (None) [] (None) [
           (''args'', Node ''arg'' (Some 2) (Some 2) [(''arg'', ''n'')] (None) [])]),
         (''body'', Node ''Expr'' (Some 3) (Some 3) [] (None) [
           (''value'', Node ''Call'' (Some 3) (Some 3) [] (None) [
             (''func'', Node ''Name'' (Some 3) (Some 3) [(''id'', ''print'')] (None) [
               (''ctx'', Node ''Load'' (None) (None) [] (None) [])]),
             (''args'', Node ''Constant'' (Some 3) (Some 3) [] (Some (CInt 42)) [])])]),
         (''body'', Node ''Expr'' (Some 4) (Some 4) [] (None) [
           (''value'', Node ''Call'' (Some 4) (Some 4) [] (None) [
             (''func'', Node ''Attribute'' (Some 4) (Some 4) [(''attr'', ''exit'')] (None) [
               (''value'', Node ''Name'' (Some 4) (Some 4) [(''id'', ''sys'')] (None) [
                 (''ctx'', Node ''Load'' (None) (None) [] (None) [])]),
               (''ctx'', Node ''Load'' (None) (None) [] (None) [])]),
             (''args'', Node ''Constant'' (Some 4) (Some 4) [] (Some (CInt 0)) [])])])])]"

definition ok_null_line :: string where
  "ok_null_line =
     ''{'' @ DQ @ ''status'' @ DQ @ '': '' @ DQ @ ''ok'' @ DQ @ '', ''
     @ DQ @ ''result'' @ DQ @ '': null}''"

definition example_run :: "string \<Rightarrow> proc_result" where
  "example_run script =
     (if str_contains ''sys.exit(0)'' script then Completed (''42'' @ NL) []
      else if str_contains ''result = solve(1)'' script then Completed (ok_null_line @ NL) []
      else TimeoutExpired)"

definition example_loads :: "string \<Rightarrow> pyval option" where
  "example_loads line =
     (if line = ''42'' then Some (PInt 42)
      else if line = ok_null_line then Some (PDict [(''status'', PStr ''ok''), (''result'', PNone)])
      else None)"

definition example_parse :: "string \<Rightarrow> string + node" where
  "example_parse source =
     (if source = src_with_assert then Inr tree_with_assert
      else if source = src_bare_except then Inr tree_bare_except
      else if source = src_solve_one then Inr tree_solve_one
      else if source = src_print_exit then Inr tree_print_exit
      else Inl ''invalid syntax (<unknown>, line 2)'')"

definition example_platform :: platform where
  "example_platform =
     \<lparr>run_process = example_run,
      json_loads = example_loads,
      float_of_str = (\<lambda>s. None),
      py_sorted = (\<lambda>xs. Inr xs),
      py_str = (\<lambda>v. []),
      textwrap_dedent = (\<lambda>s. s),
      ast_parse = example_parse,
      ast_unparse = (\<lambda>n. if cls n = ''Name'' then sattr ''id'' n else None),
      re_finditer = (\<lambda>p s. if p = PasswordPattern \<and> s = src_secret_unparsable then [0] else [])\<rparr>"

section \<open>The cyclomatic count as documented\<close>

text \<open>
  The count that the docstring of \<^verbatim>\<open>_CyclomaticVisitor\<close> and the specification describe:
  1 for the function, 1 for each \<^verbatim>\<open>if\<close>, loop, exception handler, \<^verbatim>\<open>with\<close> block and
  \<^verbatim>\<open>assert\<close>, 1 for each filter clause of a comprehension, and the number of operands
  less one for each boolean chain.  It is stated over all nodes below the function, in
  the order of \<^verbatim>\<open>ast.walk\<close>.
\<close>

definition documentedIncrement :: "node \<Rightarrow> int" where
  "documentedIncrement n =
     (if cls n \<in> {''If'', ''For'', ''While'', ''ExceptHandler'', ''With'', ''Assert''} then 1
      else if cls n = ''BoolOp'' then int (length (field ''values'' n)) - 1
      else if cls n = ''comprehension'' then int (length (field ''ifs'' n))
      else 0)"

definition documentedCyclomatic :: "node \<Rightarrow> int" where
  "documentedCyclomatic funcNode = 1 + sum_list (map documentedIncrement (walk funcNode))"

text \<open>A problem with one visible test case, \<^verbatim>\<open>solve(1)\<close> with weight \<open>w1\<close>, and one hidden
  test case, \<^verbatim>\<open>solve(2)\<close> with weight \<open>w2\<close>; both expect \<^verbatim>\<open>None\<close>.\<close>

definition example_case :: "string \<Rightarrow> string \<Rightarrow> int \<Rightarrow> testcase" where
  "example_case l a w =
     \<lparr>tc_label = Some l, tc_args = Some a, tc_expected = PNone, tc_ordered = None,
      tc_weight = Some w\<rparr>"

definition example_problem :: "int \<Rightarrow> int \<Rightarrow> problem" where
  "example_problem w1 w2 =
     \<lparr>preamble = None,
      testCases = [example_case ''first'' ''solve(1)'' w1],
      hiddenTestCases = [example_case ''second'' ''solve(2)'' w2]\<rparr>"

section \<open>Properties of the float model\<close>

text \<open>Rounding to the nearest integer is monotone, fixes the integers and moves a
  number by at most one half; \<open>binexp\<close> brackets a positive rational between two
  consecutive powers of two.  From these, rounding to a double is monotone on the
  non-negative rationals and moves a number by at most half of its spacing.\<close>

lemma rne_cases: "rne x = \<lfloor>x\<rfloor> \<or> rne x = \<lfloor>x\<rfloor> + 1"
  by (simp add: rne_def Let_def)

lemma rne_err: "\<bar>of_int (rne x) - x\<bar> \<le> 1/2"
proof -
  have "of_int \<lfloor>x\<rfloor> \<le> x" "x < of_int \<lfloor>x\<rfloor> + 1" by linarith+
  then show ?thesis
    by (auto simp: rne_def Let_def split: if_splits)
qed

lemma rne_of_int [simp]: "rne (of_int n) = n"
  by (simp add: rne_def)

lemma rne_mono: assumes "x \<le> y" shows "rne x \<le> rne y"
proof -
  have f: "\<lfloor>x\<rfloor> \<le> \<lfloor>y\<rfloor>" using assms by (rule floor_mono)
  show ?thesis
  proof (cases "\<lfloor>x\<rfloor> = \<lfloor>y\<rfloor>")
    case True
    then show ?thesis using assms by (auto simp: rne_def Let_def)
  next
    case False
    with f have "\<lfloor>x\<rfloor> + 1 \<le> \<lfloor>y\<rfloor>" by simp
    moreover have "rne x \<le> \<lfloor>x\<rfloor> + 1" using rne_cases [of x] by auto
    moreover have "\<lfloor>y\<rfloor> \<le> rne y" using rne_cases [of y] by auto
    ultimately show ?thesis by linarith
  qed
qed

lemma bitlen_rat_bounds:
  assumes "0 < (p::int)"
  shows "(2::rat) powi (bitlen p - 1) \<le> of_int p" and "of_int p < (2::rat) powi bitlen p"
proof -
  have b: "1 \<le> bitlen p"
    using assms bitlen_eq_zero_iff [of p] bitlen_nonneg [of p] by auto
  have "(2::int) ^ nat (bitlen p - 1) \<le> p" "p < 2 ^ nat (bitlen p)"
    using bitlen_bounds [OF assms] by auto
  then have "of_int ((2::int) ^ nat (bitlen p - 1)) \<le> (of_int p :: rat)"
    "(of_int p :: rat) < of_int (2 ^ nat (bitlen p))"
    by (simp_all only: of_int_le_iff of_int_less_iff)
  then show "(2::rat) powi (bitlen p - 1) \<le> of_int p" "of_int p < (2::rat) powi bitlen p"
    using b by (simp_all add: power_int_def)
qed

lemma quot_lower:
  assumes "0 < (p::int)" "0 < (q::int)"
  shows "(2::rat) powi (bitlen p - bitlen q - 1) \<le> of_int p / of_int q"
proof -
  have "(2::rat) powi (bitlen p - bitlen q - 1) = 2 powi (bitlen p - 1) / 2 powi bitlen q"
    by (simp add: power_int_diff)
  also have "\<dots> \<le> of_int p / 2 powi bitlen q"
    using bitlen_rat_bounds(1) [OF assms(1)] by (simp add: divide_right_mono)
  also have "\<dots> \<le> of_int p / of_int q"
    using bitlen_rat_bounds(2) [OF assms(2)] assms by (simp add: divide_left_mono)
  finally show ?thesis .
qed

lemma quot_upper:
  assumes "0 < (p::int)" "0 < (q::int)"
  shows "of_int p / of_int q < (2::rat) powi (bitlen p - bitlen q + 1)"
proof -
  have "of_int p / of_int q < (2::rat) powi bitlen p / of_int q"
    using bitlen_rat_bounds(2) [OF assms(1)] assms(2) by (simp add: divide_strict_right_mono)
  also have "\<dots> \<le> 2 powi bitlen p / 2 powi (bitlen q - 1)"
    using bitlen_rat_bounds(1) [OF assms(2)] by (intro frac_le) simp_all
  also have "\<dots> = (2::rat) powi (bitlen p - bitlen q + 1)"
    by (simp add: power_int_diff power_int_add)
  finally show ?thesis .
qed

lemma binexp_bounds:
  assumes "0 < x"
  shows "2 powi binexp x \<le> x" and "x < 2 powi (binexp x + 1)"
proof -
  obtain p q where pq: "quotient_of x = (p, q)" by (cases "quotient_of x")
  have q: "0 < q" using pq by (rule quotient_of_denom_pos)
  have x: "x = of_int p / of_int q" using pq by (rule quotient_of_div)
  have p: "0 < p" using assms q x by (simp add: zero_less_divide_iff)
  have lo: "(2::rat) powi (bitlen p - bitlen q - 1) \<le> x"
    unfolding x using p q by (rule quot_lower)
  have hi: "x < (2::rat) powi (bitlen p - bitlen q + 1)"
    unfolding x using p q by (rule quot_upper)
  have e: "binexp x = (if 2 powi (bitlen p - bitlen q) \<le> x then bitlen p - bitlen q
      else bitlen p - bitlen q - 1)"
    by (simp add: binexp_def pq Let_def)
  show "2 powi binexp x \<le> x" using lo by (simp add: e)
  show "x < 2 powi (binexp x + 1)" using hi by (auto simp add: e not_le)
qed

lemma binexp_mono:
  assumes "0 < x" "x \<le> y"
  shows "binexp x \<le> binexp y"
proof (rule ccontr)
  assume "\<not> binexp x \<le> binexp y"
  then have "binexp y + 1 \<le> binexp x" by simp
  then have "(2::rat) powi (binexp y + 1) \<le> 2 powi binexp x"
    by (intro power_int_increasing) simp_all
  moreover have "y < 2 powi (binexp y + 1)" using assms by (intro binexp_bounds) simp
  moreover have "2 powi binexp x \<le> x" using assms by (intro binexp_bounds)
  ultimately show False using assms by linarith
qed

lemma binexp_less:
  assumes "0 < x" "x < 2 powi k"
  shows "binexp x < k"
proof (rule ccontr)
  assume "\<not> binexp x < k"
  then have "(2::rat) powi k \<le> 2 powi binexp x"
    by (intro power_int_increasing) simp_all
  moreover have "2 powi binexp x \<le> x" using assms by (intro binexp_bounds)
  ultimately show False using assms by linarith
qed

lemma ulp_pos: "0 < (2::rat) powi k"
  by (simp add: zero_less_power_int)

lemma fl_0 [simp]: "fl 0 = 0"
  by (simp add: fl_def)

lemma fl_err: "\<bar>fl x - x\<bar> \<le> 2 powi ulpexp x / 2"
proof (cases "x = 0")
  case True
  then show ?thesis by (simp add: less_imp_le [OF ulp_pos])
next
  case False
  define u :: rat where "u = 2 powi ulpexp x"
  have u: "0 < u" by (simp add: u_def ulp_pos)
  have "fl x - x = (of_int (rne (x / u)) - x / u) * u"
    using False u by (simp add: fl_def u_def algebra_simps)
  then have "\<bar>fl x - x\<bar> = \<bar>of_int (rne (x / u)) - x / u\<bar> * u"
    using u by (simp add: abs_mult)
  also have "\<dots> \<le> (1/2) * u"
    using u rne_err [of "x / u"] by (intro mult_right_mono) simp_all
  finally show ?thesis by (simp add: u_def)
qed

lemma fl_nonneg: assumes "0 \<le> x" shows "0 \<le> fl x"
proof (cases "x = 0")
  case True then show ?thesis by simp
next
  case False
  have "0 \<le> x / 2 powi ulpexp x" using assms by (simp add: less_imp_le [OF ulp_pos])
  then have "rne (of_int 0) \<le> rne (x / 2 powi ulpexp x)" by (intro rne_mono) simp
  then have "0 \<le> rne (x / 2 powi ulpexp x)" by (simp only: rne_of_int)
  then show ?thesis using False by (simp add: fl_def less_imp_le [OF ulp_pos])
qed

lemma fl_mono_pos:
  assumes "0 < x" "x \<le> y"
  shows "fl x \<le> fl y"
proof -
  have y: "0 < y" using assms by simp
  have bm: "binexp x \<le> binexp y" using assms by (rule binexp_mono)
  have um: "ulpexp x \<le> ulpexp y" using bm assms y by (simp add: ulpexp_def)
  have fx: "fl x = of_int (rne (x / 2 powi ulpexp x)) * 2 powi ulpexp x"
    and fy: "fl y = of_int (rne (y / 2 powi ulpexp y)) * 2 powi ulpexp y"
    using assms y by (simp_all add: fl_def)
  show ?thesis
  proof (cases "ulpexp x = ulpexp y")
    case True
    have "x / 2 powi ulpexp y \<le> y / 2 powi ulpexp y"
      using assms by (simp add: divide_right_mono less_imp_le [OF ulp_pos])
    then have "rne (x / 2 powi ulpexp y) \<le> rne (y / 2 powi ulpexp y)" by (rule rne_mono)
    then show ?thesis unfolding fx fy True
      by (simp add: mult_right_mono less_imp_le [OF ulp_pos])
  next
    case False
    with um have lt: "ulpexp x + 1 \<le> ulpexp y" by simp
    have ey: "ulpexp y = binexp y - 52"
      using lt assms y by (simp add: ulpexp_def max_def split: if_splits)
    have ex: "binexp x \<le> ulpexp x + 52"
      using assms by (simp add: ulpexp_def)
    have "x < 2 powi (binexp x + 1)" using assms by (intro binexp_bounds)
    also have "\<dots> \<le> 2 powi (ulpexp x + 53)"
      using ex by (intro power_int_increasing) simp_all
    also have "\<dots> = of_int (2 ^ 53) * 2 powi ulpexp x"
      by (simp add: power_int_add)
    finally have "x / 2 powi ulpexp x \<le> of_int (2 ^ 53)"
      by (simp add: pos_divide_le_eq [OF ulp_pos])
    then have "rne (x / 2 powi ulpexp x) \<le> rne (of_int (2 ^ 53))" by (rule rne_mono)
    then have "rne (x / 2 powi ulpexp x) \<le> 2 ^ 53" by (simp only: rne_of_int)
    then have "(of_int (rne (x / 2 powi ulpexp x)) :: rat) \<le> of_int (2 ^ 53)"
      by (simp only: of_int_le_iff)
    then have "fl x \<le> of_int (2 ^ 53) * 2 powi ulpexp x"
      unfolding fx by (intro mult_right_mono) (simp_all add: less_imp_le [OF ulp_pos])
    also have "\<dots> = 2 powi (ulpexp x + 53)" by (simp add: power_int_add)
    also have "\<dots> \<le> 2 powi (ulpexp y + 52)"
      using lt by (intro power_int_increasing) simp_all
    finally have A: "fl x \<le> 2 powi (ulpexp y + 52)" .
    have "(2::rat) powi (ulpexp y + 52) \<le> y"
      using binexp_bounds(1) [OF y] by (simp add: ey)
    moreover have "(2::rat) powi (ulpexp y + 52) = of_int (2 ^ 52) * 2 powi ulpexp y"
      by (simp add: power_int_add)
    ultimately have "of_int (2 ^ 52) \<le> y / 2 powi ulpexp y"
      by (simp add: pos_le_divide_eq [OF ulp_pos])
    then have "rne (of_int (2 ^ 52)) \<le> rne (y / 2 powi ulpexp y)" by (rule rne_mono)
    then have "2 ^ 52 \<le> rne (y / 2 powi ulpexp y)" by (simp only: rne_of_int)
    then have "(of_int (2 ^ 52) :: rat) \<le> of_int (rne (y / 2 powi ulpexp y))"
      by (simp only: of_int_le_iff)
    then have "of_int (2 ^ 52) * 2 powi ulpexp y \<le> fl y"
      unfolding fy by (intro mult_right_mono) (simp_all add: less_imp_le [OF ulp_pos])
    then have B: "2 powi (ulpexp y + 52) \<le> fl y" by (simp add: power_int_add)
    from A B show ?thesis by linarith
  qed
qed

lemma fl_mono: assumes "0 \<le> x" "x \<le> y" shows "fl x \<le> fl y"
proof (cases "x = 0")
  case True
  then show ?thesis using assms fl_nonneg [of y] by simp
next
  case False
  then show ?thesis using assms by (intro fl_mono_pos) simp_all
qed

lemma ulpexp_le:
  assumes "\<bar>x\<bar> < 2 powi (k + 1)" "- 1022 \<le> k" "x \<noteq> 0"
  shows "ulpexp x \<le> k - 52"
proof -
  have "binexp \<bar>x\<bar> < k + 1" using assms by (intro binexp_less) simp_all
  then show ?thesis using assms by (simp add: ulpexp_def)
qed

lemma fl_err_bound:
  assumes "\<bar>x\<bar> < 2 powi (k + 1)" "- 1022 \<le> k"
  shows "\<bar>fl x - x\<bar> \<le> 2 powi (k - 53)"
proof (cases "x = 0")
  case True
  then show ?thesis by (simp add: less_imp_le [OF ulp_pos])
next
  case False
  have "ulpexp x \<le> k - 52" using assms False by (intro ulpexp_le)
  then have "(2::rat) powi ulpexp x \<le> 2 powi (k - 52)"
    by (intro power_int_increasing) simp_all
  then have "(2::rat) powi ulpexp x / 2 \<le> 2 powi (k - 52) / 2" by simp
  also have "\<dots> = 2 powi (k - 53)"
    by (simp add: power_int_diff)
  finally show ?thesis using fl_err [of x] by linarith
qed


lemma rne_eqI: assumes "\<bar>x - of_int m\<bar> < 1/2" shows "rne x = m"
proof -
  have "\<bar>of_int (rne x) - x\<bar> \<le> 1/2" by (rule rne_err)
  with assms have "\<bar>(of_int (rne x) :: rat) - of_int m\<bar> < 1" by linarith
  then have "\<bar>(of_int (rne x - m) :: rat)\<bar> < of_int 1" by simp
  then have "\<bar>rne x - m\<bar> < 1" by (simp only: of_int_abs [symmetric] of_int_less_iff)
  then show ?thesis by simp
qed

lemma rne_tie: "rne (of_int m + 1/2) = (if even m then m else m + 1)"
proof -
  have "\<lfloor>(of_int m :: rat) + 1/2\<rfloor> = m" by linarith
  then show ?thesis by (simp add: rne_def)
qed

lemma binexp_eqI:
  assumes "2 powi e \<le> x" "x < 2 powi (e + 1)"
  shows "binexp x = e"
proof -
  have x: "0 < x" using assms(1) ulp_pos [of e] by linarith
  have "binexp x < e + 1" using x assms(2) by (rule binexp_less)
  moreover have "e \<le> binexp x"
  proof (rule ccontr)
    assume "\<not> e \<le> binexp x"
    then have "(2::rat) powi (binexp x + 1) \<le> 2 powi e"
      by (intro power_int_increasing) simp_all
    with binexp_bounds(2) [OF x] assms(1) show False by linarith
  qed
  ultimately show ?thesis by simp
qed

lemma fl_eqI:
  assumes "2 powi e \<le> \<bar>x\<bar>" "\<bar>x\<bar> < 2 powi (e + 1)" "- 1022 \<le> e"
    and "\<bar>x / 2 powi (e - 52) - of_int m\<bar> < 1/2"
  shows "fl x = of_int m * 2 powi (e - 52)"
proof -
  have "binexp \<bar>x\<bar> = e" using assms(1,2) by (rule binexp_eqI)
  then have u: "ulpexp x = e - 52" using assms(3) by (simp add: ulpexp_def)
  have "0 < \<bar>x\<bar>" using assms(1) ulp_pos [of e] by linarith
  then have x: "x \<noteq> 0" by simp
  have "rne (x / 2 powi (e - 52)) = m" using assms(4) by (rule rne_eqI)
  then show ?thesis using x by (simp add: fl_def u)
qed

lemma to_double_fin:
  assumes "\<bar>fl x\<bar> < 2 powi 1024"
  shows "to_double x = Fin (fl x)"
proof (cases "fl x = 0")
  case True
  then show ?thesis by (simp add: to_double_def)
next
  case False
  then have "binexp \<bar>fl x\<bar> < 1024" using assms by (intro binexp_less) simp_all
  then show ?thesis by (simp add: to_double_def)
qed

lemma fl_pow2: assumes "- 1022 \<le> k" shows "fl (2 powi k) = 2 powi k"
proof -
  have p: "(0::rat) < 2 powi k" by (rule ulp_pos)
  have "(2::rat) powi k / 2 powi (k - 52) = 2 powi 52"
    by (simp add: power_int_diff)
  then have d: "\<bar>(2::rat) powi k / 2 powi (k - 52) - of_int (2 ^ 52)\<bar> < 1/2" by simp
  have "fl (2 powi k) = of_int (2 ^ 52) * 2 powi (k - 52)"
  proof (rule fl_eqI [where e = k])
    show "2 powi k \<le> \<bar>(2::rat) powi k\<bar>" using p by simp
    show "\<bar>(2::rat) powi k\<bar> < 2 powi (k + 1)"
      using p power_int_strict_increasing [of k "k + 1" "2::rat"] by simp
    show "- 1022 \<le> k" by fact
    show "\<bar>(2::rat) powi k / 2 powi (k - 52) - of_int (2 ^ 52)\<bar> < 1/2" by (rule d)
  qed
  also have "\<dots> = 2 powi k" by (simp add: power_int_diff)
  finally show ?thesis .
qed

lemma binexp_one: "binexp 1 = 0"
  by (rule binexp_eqI) simp_all

lemma fl_of_int:
  assumes "\<bar>n\<bar> < 2 ^ 53"
  shows "fl (of_int n) = of_int n"
proof (cases "n = 0")
  case True
  then show ?thesis by simp
next
  case False
  define a :: rat where "a = \<bar>of_int n\<bar>"
  have a1: "1 \<le> a" using False by (simp add: a_def flip: of_int_abs)
  have "a < of_int (2 ^ 53)" unfolding a_def using assms by (simp only: of_int_less_iff flip: of_int_abs)
  then have a2: "a < 2 powi 53" by simp
  have b_hi: "binexp a < 53" using a1 a2 by (intro binexp_less) simp_all
  have "binexp 1 \<le> binexp a" using a1 by (intro binexp_mono) simp_all
  then have b_lo: "0 \<le> binexp a" by (simp add: binexp_one)
  define u where "u = ulpexp (of_int n)"
  have u: "u = binexp a - 52" using b_lo by (simp add: u_def ulpexp_def a_def)
  have u0: "u \<le> 0" using b_hi u by simp
  have "(2::rat) powi u = 1 / 2 ^ nat (- u)"
    using u0 by (simp add: power_int_def inverse_eq_divide power_one_over)
  then have "of_int n / 2 powi u = (of_int (n * 2 ^ nat (- u)) :: rat)" by simp
  then have "rne (of_int n / 2 powi u) = n * 2 ^ nat (- u)" by (simp only: rne_of_int)
  then have "fl (of_int n) = of_int (n * 2 ^ nat (- u)) * 2 powi u"
    using False by (simp add: fl_def u_def)
  also have "\<dots> = of_int n"
    using \<open>(2::rat) powi u = 1 / 2 ^ nat (- u)\<close> by simp
  finally show ?thesis .
qed

lemma to_double_small:
  assumes "\<bar>x\<bar> \<le> 1024"
  shows "to_double x = Fin (fl x)" and "\<bar>fl x - x\<bar> \<le> 1 / 2 ^ 43"
proof -
  have "\<bar>x\<bar> < 2 powi (10 + 1)" using assms by simp
  then have "\<bar>fl x - x\<bar> \<le> 2 powi (10 - 53)" by (rule fl_err_bound) simp
  then show e: "\<bar>fl x - x\<bar> \<le> 1 / 2 ^ 43" by (simp add: power_int_minus_divide)
  have "\<bar>fl x\<bar> \<le> \<bar>x\<bar> + 1 / 2 ^ 43" using e by linarith
  also have "\<dots> < 2 ^ 11" using assms by simp
  also have "\<dots> \<le> (2::rat) powi 1024"
    using power_int_increasing [of 11 1024 "2::rat"] by simp
  finally show "to_double x = Fin (fl x)" by (rule to_double_fin)
qed

section \<open>Parse failures\<close>

lemma example_parse_unparsable:
  "ast_parse example_platform src_secret_unparsable = Inl ''invalid syntax (<unknown>, line 2)''"
  by code_simp

text \<open>
  Claim C9.  When the submission does not parse, \<open>runComplexityEvaluation\<close> returns a
  result whose score is 0 (not the 50 of a submission without functions) and whose list
  of functions is empty, and \<open>runStyleEvaluation\<close> returns score 0, no violation
  category and a total of 0 violations.
\<close>

theorem parse_failure_complexity_and_style_zero:
  assumes "ast_parse P submittedCode = Inl exc"
  shows "(\<exists>r. runComplexityEvaluation P submittedCode = Inr r
            \<and> x_score r = 0 \<and> x_functions r = [])
       \<and> s_score (runStyleEvaluation P submittedCode) = 0
       \<and> s_violations (runStyleEvaluation P submittedCode) = []
       \<and> s_totalViolations (runStyleEvaluation P submittedCode) = 0"
  using assms by (simp add: runComplexityEvaluation_def runStyleEvaluation_def)

theorem parse_failure_complexity_and_style_zero_witness:
  "ast_parse example_platform src_secret_unparsable = Inl ''invalid syntax (<unknown>, line 2)''
   \<and> (\<exists>r. runComplexityEvaluation example_platform src_secret_unparsable = Inr r
            \<and> x_score r = 0 \<and> x_functions r = [])
   \<and> s_score (runStyleEvaluation example_platform src_secret_unparsable) = 0
   \<and> s_violations (runStyleEvaluation example_platform src_secret_unparsable) = []
   \<and> s_totalViolations (runStyleEvaluation example_platform src_secret_unparsable) = 0"
  using parse_failure_complexity_and_style_zero [OF example_parse_unparsable]
    example_parse_unparsable by simp

text \<open>Scenario D of the specification: a submission that parses and defines no function
  scores the neutral 50.\<close>

lemma no_function_scores_50:
  assumes "ast_parse P submittedCode = Inr tree"
    and "filter (\<lambda>n. cls n = ''FunctionDef'' \<or> cls n = ''AsyncFunctionDef'') (walk tree) = []"
  shows "\<exists>r. runComplexityEvaluation P submittedCode = Inr r \<and> x_score r = 50 \<and> x_functions r = []"
  using assms
  by (simp add: runComplexityEvaluation_def scoreFromMetrics_def complexitySummary_def ebind_def)

text \<open>
  Claim C1, as the code has it.  When the submission does not parse,
  \<open>runSecurityEvaluation\<close> returns its initial result: score 100, no findings, and a
  summary that reports the syntax error and that the security checks were skipped.
  None of the checks has run, the text-based ones included.
\<close>

theorem security_parse_failure_skips_every_check:
  assumes "ast_parse P submittedCode = Inl exc"
  shows "runSecurityEvaluation P submittedCode =
           \<lparr>k_score = 100, k_findings = [],
            k_summary = ''Syntax error '' @ EM_DASH @ '' security checks skipped: '' @ exc\<rparr>"
  using assms by (simp add: runSecurityEvaluation_def)

theorem security_parse_failure_skips_every_check_witness:
  "ast_parse example_platform src_secret_unparsable = Inl ''invalid syntax (<unknown>, line 2)''
   \<and> runSecurityEvaluation example_platform src_secret_unparsable =
       \<lparr>k_score = 100, k_findings = [],
        k_summary = ''Syntax error '' @ EM_DASH @ '' security checks skipped: ''
                    @ ''invalid syntax (<unknown>, line 2)''\<rparr>"
  using security_parse_failure_skips_every_check [OF example_parse_unparsable]
    example_parse_unparsable by simp

text \<open>The claim as stated fails on the unparsable submission whose first line assigns a
  password literal: the hardcoded-credential check finds the literal in the raw source,
  and the result of \<open>runSecurityEvaluation\<close> has no finding and no deduction.\<close>

theorem security_parse_failure_counterexample:
  "ast_parse example_platform src_secret_unparsable = Inl ''invalid syntax (<unknown>, line 2)''
   \<and> map f_category (checkHardcodedSecrets example_platform src_secret_unparsable)
       = [''HardcodedSecret'']
   \<and> k_findings (runSecurityEvaluation example_platform src_secret_unparsable) = []
   \<and> k_score (runSecurityEvaluation example_platform src_secret_unparsable) = 100"
  by code_simp

text \<open>For a submission that parses, the findings are those of the four checks in order,
  the text-based ones last, and each finding deducts by its severity.\<close>

lemma security_findings_of_parsable:
  assumes "ast_parse P submittedCode = Inr tree"
  shows "k_findings (runSecurityEvaluation P submittedCode) =
           checkDangerousCalls tree @ checkAssertForSecurity P tree
           @ checkHardcodedSecrets P submittedCode @ checkSqlInjection P submittedCode"
    and "k_score (runSecurityEvaluation P submittedCode) =
           max 0 (100 - sum_list (map (\<lambda>f. SEVERITY_DEDUCTIONS (f_severity f))
                                   (k_findings (runSecurityEvaluation P submittedCode))))"
  using assms by (simp_all add: runSecurityEvaluation_def securityComputeScore_def Let_def)

section \<open>Cyclomatic count\<close>

lemma example_parse_with_assert:
  "ast_parse example_platform src_with_assert = Inr tree_with_assert"
  by (simp add: example_platform_def example_parse_def)

text \<open>
  Claim C4, at the function \<^verbatim>\<open>f\<close> of \<open>src_with_assert\<close>, whose body holds one \<^verbatim>\<open>with\<close>
  block and one \<^verbatim>\<open>assert\<close>.  The documented count is 3.  The visitor has no method
  for \<^verbatim>\<open>With\<close> or \<^verbatim>\<open>Assert\<close> nodes, and \<open>runComplexityEvaluation\<close> reports the
  count 1 for \<^verbatim>\<open>f\<close>.
\<close>

theorem cyclomatic_ignores_with_and_assert:
  "(case runComplexityEvaluation example_platform src_with_assert of
      Inr r \<Rightarrow> map (\<lambda>m. (m_name m, cyclomaticScore m)) (x_functions r) = [(''f'', 1)]
    | Inl e \<Rightarrow> False)
   \<and> map documentedCyclomatic
         (filter (\<lambda>n. cls n = ''FunctionDef'') (walk tree_with_assert)) = [3]"
  by code_simp

section \<open>Style score\<close>

text \<open>
  Claim C5, at \<open>src_bare_except\<close>, whose only violation is one bare \<^verbatim>\<open>except:\<close> (its
  body is an assignment, not \<^verbatim>\<open>pass\<close>).  \<open>runStyleEvaluation\<close> files the violation
  under the category \<^verbatim>\<open>emptyExcept\<close> and deducts that category's 8 points: the score is
  92, not the 94 that the weight 6 of \<^verbatim>\<open>bareExcept\<close> in \<open>VIOLATION_WEIGHTS\<close> gives.
\<close>

theorem bare_except_deducts_eight:
  "s_score (runStyleEvaluation example_platform src_bare_except) = 92
   \<and> map (\<lambda>kv. (fst kv, length (snd kv)))
         (s_violations (runStyleEvaluation example_platform src_bare_except))
       = [(''emptyExcept'', 1)]
   \<and> s_totalViolations (runStyleEvaluation example_platform src_bare_except) = 1
   \<and> map_of VIOLATION_WEIGHTS ''bareExcept'' = Some 6
   \<and> map_of VIOLATION_WEIGHTS ''emptyExcept'' = Some 8"
  by code_simp

section \<open>Isolation of test cases\<close>

lemma sandbox_print_exit:
  "runInSandbox example_platform
     (buildRunnerScript example_platform src_print_exit ''solve(1)'' []) = PInt 42"
  by code_simp

text \<open>
  Claim C7, at the submission \<open>src_print_exit\<close>.  Its process prints \<^verbatim>\<open>42\<close> and exits
  before the driver prints its line; \<^verbatim>\<open>_runInSandbox\<close> decodes the last line and returns
  the int 42, and \<^verbatim>\<open>outcome["status"]\<close> raises \<^verbatim>\<open>TypeError\<close> in the loop of
  \<open>runCorrectnessEvaluation\<close>.  The evaluation ends with that exception: no result is
  recorded for the first test case and the second is not run.
\<close>

theorem malformed_output_aborts_evaluation:
  "runInSandbox example_platform
     (buildRunnerScript example_platform src_print_exit ''solve(1)'' []) = PInt 42
   \<and> runCorrectnessEvaluation example_platform src_print_exit (example_problem 2 1)
       = Inl TypeError"
  by code_simp

section \<open>Float comparison\<close>

lemma binexp_pow2: "binexp (2 powi k) = k"
  by (rule binexp_eqI) (simp_all add: power_int_strict_increasing)

lemma fl_ge_pow2:
  assumes "- 1022 \<le> k" and "2 powi k \<le> x"
  shows "2 powi k \<le> fl x" and "k \<le> binexp \<bar>fl x\<bar>"
proof -
  have "fl (2 powi k) \<le> fl x"
    using assms(2) by (intro fl_mono) (simp_all add: less_imp_le [OF ulp_pos])
  then show ge: "2 powi k \<le> fl x" using assms(1) by (simp only: fl_pow2)
  then have pos: "0 < fl x" using ulp_pos [of k] by linarith
  have "binexp (2 powi k) \<le> binexp (fl x)"
    using ge by (intro binexp_mono) (simp_all only: ulp_pos)
  then show "k \<le> binexp \<bar>fl x\<bar>" using pos by (simp only: binexp_pow2 abs_of_pos)
qed

lemma float_of_int_overflow:
  assumes "2 ^ 1024 \<le> n"
  shows "float_of_int n = Inl OverflowError"
proof -
  have "(of_int (2 ^ 1024) :: rat) \<le> of_int n" using assms by (simp only: of_int_le_iff)
  then have le: "(2::rat) powi 1024 \<le> of_int n" by simp
  have ge: "(2::rat) powi 1024 \<le> fl (of_int n)" and b: "1024 \<le> binexp \<bar>fl (of_int n)\<bar>"
    using fl_ge_pow2 [OF _ le] by simp_all
  have pos: "0 < fl (of_int n)" using ge ulp_pos [of 1024] by linarith
  have "to_double (of_int n) = PosInf" using pos b by (simp add: to_double_def)
  then show ?thesis by (simp add: float_of_int_def)
qed

text \<open>
  Claim C10, at the expected value \<^verbatim>\<open>1.5\<close> and the actual value \<^verbatim>\<open>10**400\<close>, an int that
  \<^verbatim>\<open>float()\<close> cannot convert.  \<^verbatim>\<open>float(actual)\<close> raises \<^verbatim>\<open>OverflowError\<close>, which the
  handler for \<^verbatim>\<open>(TypeError, ValueError)\<close> does not catch: \<open>valuesMatch\<close> raises instead of
  returning \<^verbatim>\<open>False\<close>.
\<close>

theorem values_match_raises_on_huge_int:
  "valuesMatch P (PInt (10 ^ 400)) (PFloat (Fin (3 / 2))) ordered = Inl OverflowError"
proof -
  have "(2::int) ^ 1024 \<le> 10 ^ 400" by simp
  then have "float_of_int (10 ^ 400) = Inl OverflowError" by (rule float_of_int_overflow)
  then show ?thesis by (simp add: valuesMatch_def float_compare_def ebind_def)
qed

text \<open>The conversions that raise \<^verbatim>\<open>TypeError\<close> or \<^verbatim>\<open>ValueError\<close> do give \<^verbatim>\<open>False\<close>.\<close>

lemma values_match_unconvertible_is_false:
  assumes "expected \<noteq> PNone" and "is_float expected \<or> is_float actual"
    and "py_float P actual = Inl TypeError \<or> py_float P actual = Inl ValueError"
  shows "valuesMatch P actual expected ordered = Inr False"
  using assms by (auto simp add: valuesMatch_def float_compare_def ebind_def)

section \<open>Overall score\<close>

lemma float_of_int_small:
  assumes "\<bar>n\<bar> \<le> 1024"
  shows "float_of_int n = Inr (Fin (of_int n))"
proof -
  have "\<bar>n\<bar> < 2 ^ 53" using assms by simp
  then have f: "fl (of_int n) = of_int n" by (rule fl_of_int)
  have "\<bar>(of_int n :: rat)\<bar> \<le> 1024" using assms by (simp flip: of_int_abs)
  then have "to_double (of_int n) = Fin (fl (of_int n))" by (rule to_double_small)
  then show ?thesis by (simp add: float_of_int_def f)
qed

lemma int_times_float_small:
  assumes "\<bar>n\<bar> \<le> 1024" and "\<bar>of_int n * w\<bar> \<le> 1024"
  shows "int_times_float n (Fin w) = Inr (Fin (fl (of_int n * w)))"
  using to_double_small(1) [OF assms(2)]
  by (simp add: int_times_float_def float_of_int_small [OF assms(1)] ebind_def)

lemma fadd_small:
  assumes "\<bar>x + y\<bar> \<le> 1024"
  shows "fadd (Fin x) (Fin y) = Fin (fl (x + y))"
  using to_double_small(1) [OF assms] by simp

lemma weight_half: "float_lit (50 / 100) = Fin (1 / 2)"
proof -
  have "fl (1 / 2) = of_int (2 ^ 52) * 2 powi (- 1 - 52)"
    by (rule fl_eqI) simp_all
  then have "fl (1 / 2) = 1 / 2" by simp
  then show ?thesis using to_double_small(1) [of "1 / 2"] by (simp add: float_lit_def)
qed

lemma weight_fifth: "float_lit (20 / 100) = Fin (3602879701896397 / 18014398509481984)"
proof -
  have "fl (1 / 5) = of_int 7205759403792794 * 2 powi (- 3 - 52)"
    by (rule fl_eqI) simp_all
  then have "fl (1 / 5) = 3602879701896397 / 18014398509481984" by simp
  then show ?thesis using to_double_small(1) [of "1 / 5"] by (simp add: float_lit_def)
qed

lemma weight_15: "float_lit (15 / 100) = Fin (5404319552844595 / 36028797018963968)"
proof -
  have "fl (3 / 20) = of_int 5404319552844595 * 2 powi (- 3 - 52)"
    by (rule fl_eqI) simp_all
  then have "fl (3 / 20) = 5404319552844595 / 36028797018963968" by simp
  then show ?thesis using to_double_small(1) [of "3 / 20"] by (simp add: float_lit_def)
qed


lemma to_double_small_crude:
  assumes "\<bar>x\<bar> \<le> 1024"
  shows "\<bar>fl x - x\<bar> \<le> 1 / 100000000"
proof -
  have "\<bar>fl x - x\<bar> \<le> 1 / 2 ^ 43" using assms by (rule to_double_small)
  also have "\<dots> \<le> 1 / 100000000" by simp
  finally show ?thesis .
qed

text \<open>The weighted sum as the code evaluates it, and the exact weighted sum, which is a
  multiple of one twentieth.\<close>

lemma overall_score_nearest:
  assumes C: "0 \<le> C" "C \<le> 100" and X: "0 \<le> X" "X \<le> 100"
    and S: "0 \<le> S" "S \<le> 100" and K: "0 \<le> K" "K \<le> 100"
  shows "\<exists>n. computeOverallScore C X S K = Inr n
           \<and> \<bar>of_int n - (of_int (50 * C + 20 * X + 15 * S + 15 * K) :: rat) / 100\<bar> \<le> 1 / 2"
proof -
  define c x s k :: rat where "c = of_int C" and "x = of_int X" and "s = of_int S" and "k = of_int K"
  define w2 w3 :: rat where "w2 = 3602879701896397 / 18014398509481984"
    and "w3 = 5404319552844595 / 36028797018963968"
  have cb: "0 \<le> c" "c \<le> 100" using C by (simp_all add: c_def)
  have xb: "0 \<le> x" "x \<le> 100" using X by (simp_all add: x_def)
  have sb: "0 \<le> s" "s \<le> 100" using S by (simp_all add: s_def)
  have kb: "0 \<le> k" "k \<le> 100" using K by (simp_all add: k_def)
  define a b cc d where "a = fl (c * (1 / 2))" and "b = fl (x * w2)" and "cc = fl (s * w3)"
    and "d = fl (k * w3)"
  have pa: "\<bar>c * (1 / 2)\<bar> \<le> 1024" using cb by linarith
  have pb: "\<bar>x * w2\<bar> \<le> 1024" using xb unfolding w2_def by linarith
  have pc: "\<bar>s * w3\<bar> \<le> 1024" using sb unfolding w3_def by linarith
  have pd: "\<bar>k * w3\<bar> \<le> 1024" using kb unfolding w3_def by linarith
  have ea: "\<bar>a - c * (1 / 2)\<bar> \<le> 1 / 100000000" unfolding a_def using pa by (rule to_double_small_crude)
  have eb: "\<bar>b - x * w2\<bar> \<le> 1 / 100000000" unfolding b_def using pb by (rule to_double_small_crude)
  have ec: "\<bar>cc - s * w3\<bar> \<le> 1 / 100000000" unfolding cc_def using pc by (rule to_double_small_crude)
  have ed: "\<bar>d - k * w3\<bar> \<le> 1 / 100000000" unfolding d_def using pd by (rule to_double_small_crude)
  have va: "\<bar>a - c / 2\<bar> \<le> 1 / 10000" using ea by linarith
  have vb: "\<bar>b - x / 5\<bar> \<le> 1 / 10000" using eb xb unfolding w2_def by linarith
  have vc: "\<bar>cc - 3 * s / 20\<bar> \<le> 1 / 10000" using ec sb unfolding w3_def by linarith
  have vd: "\<bar>d - 3 * k / 20\<bar> \<le> 1 / 10000" using ed kb unfolding w3_def by linarith
  define s1 s2 s3 where "s1 = fl (a + b)" and "s2 = fl (s1 + cc)" and "s3 = fl (s2 + d)"
  have p1: "\<bar>a + b\<bar> \<le> 1024" using va vb cb xb by linarith
  have e1: "\<bar>s1 - (a + b)\<bar> \<le> 1 / 100000000" unfolding s1_def using p1 by (rule to_double_small_crude)
  have v1: "\<bar>s1 - (c / 2 + x / 5)\<bar> \<le> 3 / 10000" using e1 va vb by linarith
  have p2: "\<bar>s1 + cc\<bar> \<le> 1024" using v1 vc cb xb sb by linarith
  have e2: "\<bar>s2 - (s1 + cc)\<bar> \<le> 1 / 100000000" unfolding s2_def using p2 by (rule to_double_small_crude)
  have v2: "\<bar>s2 - (c / 2 + x / 5 + 3 * s / 20)\<bar> \<le> 5 / 10000" using e2 v1 vc by linarith
  have p3: "\<bar>s2 + d\<bar> \<le> 1024" using v2 vd cb xb sb kb by linarith
  have e3: "\<bar>s3 - (s2 + d)\<bar> \<le> 1 / 100000000" unfolding s3_def using p3 by (rule to_double_small_crude)
  have v3: "\<bar>s3 - (c / 2 + x / 5 + 3 * s / 20 + 3 * k / 20)\<bar> \<le> 7 / 10000"
    using e3 v2 vd by linarith
  have ia: "int_times_float C (Fin (1 / 2)) = Inr (Fin a)"
    unfolding a_def c_def using C pa by (intro int_times_float_small) (simp_all add: c_def)
  have ib: "int_times_float X (Fin w2) = Inr (Fin b)"
    unfolding b_def x_def using X pb by (intro int_times_float_small) (simp_all add: x_def)
  have ic: "int_times_float S (Fin w3) = Inr (Fin cc)"
    unfolding cc_def s_def using S pc by (intro int_times_float_small) (simp_all add: s_def)
  have id: "int_times_float K (Fin w3) = Inr (Fin d)"
    unfolding d_def k_def using K pd by (intro int_times_float_small) (simp_all add: k_def)
  have f1: "fadd (Fin a) (Fin b) = Fin s1" unfolding s1_def using p1 by (rule fadd_small)
  have f2: "fadd (Fin s1) (Fin cc) = Fin s2" unfolding s2_def using p2 by (rule fadd_small)
  have f3: "fadd (Fin s2) (Fin d) = Fin s3" unfolding s3_def using p3 by (rule fadd_small)
  have val: "computeOverallScore C X S K = Inr (rne s3)"
    unfolding computeOverallScore_def SCORE_WEIGHTS.simps weight_half weight_fifth weight_15
    unfolding w2_def [symmetric] w3_def [symmetric]
    by (simp add: ia ib ic id ebind_def f1 f2 f3 del: fadd.simps)
  define m where "m = 50 * C + 20 * X + 15 * S + 15 * K"
  have mv: "(of_int m :: rat) / 100 = c / 2 + x / 5 + 3 * s / 20 + 3 * k / 20"
    by (simp add: m_def c_def x_def s_def k_def)
  have r: "\<bar>of_int (rne s3) - s3\<bar> \<le> 1 / 2" by (rule rne_err)
  have near: "\<bar>(of_int (rne s3) :: rat) - of_int m / 100\<bar> \<le> 1 / 2 + 7 / 10000"
    using r v3 unfolding mv by linarith
  have five: "5 dvd m" unfolding m_def by presburger
  then obtain q where q: "m = 5 * q" by (auto elim: dvdE)
  have mq: "(of_int m :: rat) / 100 = of_int q / 20" by (simp add: q)
  have "\<bar>20 * (of_int (rne s3) :: rat) - of_int q\<bar> \<le> 10 + 14 / 1000"
    using near unfolding mq by linarith
  then have "\<bar>(of_int (20 * rne s3 - q) :: rat)\<bar> < of_int 11" by simp
  then have "\<bar>20 * rne s3 - q\<bar> < 11" by (simp only: of_int_less_iff flip: of_int_abs)
  then have "\<bar>20 * rne s3 - q\<bar> \<le> 10" by simp
  then have "\<bar>(of_int (20 * rne s3 - q) :: rat)\<bar> \<le> of_int 10"
    by (simp only: of_int_le_iff flip: of_int_abs)
  then have "\<bar>20 * (of_int (rne s3) :: rat) - of_int q\<bar> \<le> 10" by simp
  then have "\<bar>(of_int (rne s3) :: rat) - of_int q / 20\<bar> \<le> 1 / 2" by linarith
  then have "\<bar>(of_int (rne s3) :: rat) - of_int m / 100\<bar> \<le> 1 / 2" by (simp only: mq)
  then show ?thesis using val unfolding m_def by blast
qed

lemma gradeLoop_thresholds:
  "fst (assignGrade g) =
     (if 90 \<le> g then ''A'' else if 80 \<le> g then ''B'' else if 70 \<le> g then ''C''
      else if 60 \<le> g then ''D'' else ''F'')"
  by (simp add: assignGrade_def GRADE_THRESHOLDS_def)


section \<open>Weighted correctness score\<close>

lemma fl_in_range:
  assumes "0 \<le> x" and "x \<le> of_int N" and "\<bar>N\<bar> < 2 ^ 53"
  shows "0 \<le> fl x" and "fl x \<le> of_int N"
proof -
  show "0 \<le> fl x" using assms(1) by (rule fl_nonneg)
  have "fl x \<le> fl (of_int N)" using assms(1,2) by (rule fl_mono)
  then show "fl x \<le> of_int N" using assms(3) by (simp only: fl_of_int)
qed

text \<open>An int quotient between 0 and \<open>N\<close>, truncated: the shape of both
  \<^verbatim>\<open>int(sum / len)\<close> and, after the multiplication by 100, of the correctness score.\<close>

lemma int_truediv_small:
  assumes "0 < b" and "0 \<le> a" and "a \<le> N * b" and "0 \<le> N" and "N \<le> 1024"
  shows "int_truediv a b = Inr (Fin (fl (of_int a / of_int b)))"
    and "0 \<le> fl (of_int a / of_int b)" and "fl (of_int a / of_int b) \<le> of_int N"
proof -
  define x :: rat where "x = of_int a / of_int b"
  have b: "(0::rat) < of_int b" using assms(1) by simp
  have x0: "0 \<le> x" using assms(1,2) by (simp add: x_def)
  have "(of_int a :: rat) \<le> of_int (N * b)" using assms(3) by (simp only: of_int_le_iff)
  then have xN: "x \<le> of_int N" using b by (simp add: x_def pos_divide_le_eq)
  have "(of_int N :: rat) \<le> of_int 1024" using assms(5) by (simp only: of_int_le_iff)
  then have "\<bar>x\<bar> \<le> 1024" using x0 xN by simp
  then have "to_double x = Fin (fl x)" by (rule to_double_small)
  then show "int_truediv a b = Inr (Fin (fl (of_int a / of_int b)))"
    using assms(1) by (simp add: int_truediv_def x_def)
  have N: "\<bar>N\<bar> < 2 ^ 53" using assms(4,5) by simp
  show "0 \<le> fl (of_int a / of_int b)" "fl (of_int a / of_int b) \<le> of_int N"
    using fl_in_range [OF x0 xN N] by (simp_all add: x_def)
qed

lemma weightedScore_value:
  assumes "0 < totalWeight" and "0 \<le> earnedWeight" and "earnedWeight \<le> totalWeight"
  shows "weightedScore earnedWeight totalWeight =
           Inr \<lfloor>fl (fl (of_int earnedWeight / of_int totalWeight) * 100)\<rfloor>"
    and "0 \<le> fl (fl (of_int earnedWeight / of_int totalWeight) * 100)"
    and "fl (fl (of_int earnedWeight / of_int totalWeight) * 100) \<le> 100"
proof -
  define q where "q = fl (of_int earnedWeight / of_int totalWeight)"
  have d: "int_truediv earnedWeight totalWeight = Inr (Fin q)" and q0: "0 \<le> q" and q1: "q \<le> 1"
    using int_truediv_small [of totalWeight earnedWeight 1] assms by (simp_all add: q_def)
  have h: "float_of_int 100 = Inr (Fin 100)"
    using float_of_int_small [of 100] by simp
  have y0: "0 \<le> q * 100" using q0 by simp
  have y1: "q * 100 \<le> of_int 100" using q1 by simp
  have "\<bar>q * 100\<bar> \<le> 1024" using q0 q1 by simp
  then have m: "to_double (q * 100) = Fin (fl (q * 100))" by (rule to_double_small)
  have r: "0 \<le> fl (q * 100)" "fl (q * 100) \<le> of_int 100"
    using fl_in_range [OF y0 y1] by simp_all
  show "weightedScore earnedWeight totalWeight =
           Inr \<lfloor>fl (fl (of_int earnedWeight / of_int totalWeight) * 100)\<rfloor>"
    using assms(1) r(1) by (simp add: weightedScore_def d h m ebind_def flip: q_def)
  show "0 \<le> fl (fl (of_int earnedWeight / of_int totalWeight) * 100)"
    "fl (fl (of_int earnedWeight / of_int totalWeight) * 100) \<le> 100"
    using r by (simp_all add: q_def)
qed

lemma weightedScore_bounds:
  assumes "0 \<le> earnedWeight" and "earnedWeight \<le> totalWeight"
  shows "\<exists>s. weightedScore earnedWeight totalWeight = Inr s \<and> 0 \<le> s \<and> s \<le> 100"
proof (cases "0 < totalWeight")
  case True
  define y where "y = fl (fl (of_int earnedWeight / of_int totalWeight) * 100)"
  have v: "weightedScore earnedWeight totalWeight = Inr \<lfloor>y\<rfloor>" and "0 \<le> y" and "y \<le> 100"
    using weightedScore_value [OF True assms] by (simp_all add: y_def)
  then have "0 \<le> \<lfloor>y\<rfloor>" and "\<lfloor>y\<rfloor> \<le> 100" by linarith+
  with v show ?thesis by blast
next
  case False
  then show ?thesis by (simp add: weightedScore_def)
qed

section \<open>The loop over the test cases\<close>

text \<open>One iteration that does not raise appends one result with the weight of the test
  case, adds that weight to the total, and adds it to the earned weight exactly when the
  comparison passed, in which case the recorded status is \<^verbatim>\<open>pass\<close>.\<close>

lemma evalTestCase_step:
  assumes "evalTestCase P code pre tch (rs, t, e) = Inr st"
  shows "(\<exists>r. st = (rs @ [r], t + caseWeight (fst tch), e + caseWeight (fst tch))
              \<and> r_weight r = caseWeight (fst tch) \<and> r_hidden r = snd tch
              \<and> r_status r = PStr ''pass'')
       \<or> (\<exists>r. st = (rs @ [r], t + caseWeight (fst tch), e)
              \<and> r_weight r = caseWeight (fst tch) \<and> r_hidden r = snd tch)"
proof -
  define outcome where "outcome = runInSandbox P (buildRunnerScript P code
      (case tc_args (fst tch) of None \<Rightarrow> [] | Some a \<Rightarrow> a) pre)"
  obtain ostatus where os: "subscript outcome ''status'' = Inr ostatus"
    using assms by (cases "subscript outcome ''status''")
      (simp_all add: evalTestCase_def Let_def ebind_def outcome_def)
  show ?thesis
  proof (cases "py_eq ostatus (PStr ''ok'')")
    case False
    then have "st = (rs @ [\<lparr>r_label = (case tc_label (fst tch) of None \<Rightarrow> ''Unnamed test'' | Some l \<Rightarrow> l),
        r_status = ostatus, r_expected = tc_expected (fst tch), r_actual = PNone,
        r_error = (case outcome of PDict d \<Rightarrow> dict_get d ''error'' | _ \<Rightarrow> PNone),
        r_hidden = snd tch, r_weight = caseWeight (fst tch)\<rparr>], t + caseWeight (fst tch), e)"
      using assms os by (simp add: evalTestCase_def Let_def ebind_def flip: outcome_def)
    then show ?thesis by simp
  next
    case True
    obtain actual where ac: "subscript outcome ''result'' = Inr actual"
      using assms os True by (cases "subscript outcome ''result''")
        (simp_all add: evalTestCase_def Let_def ebind_def flip: outcome_def)
    obtain passed where pa: "valuesMatch P actual (tc_expected (fst tch))
        (case tc_ordered (fst tch) of None \<Rightarrow> True | Some b \<Rightarrow> b) = Inr passed"
      using assms os True ac
      by (cases "valuesMatch P actual (tc_expected (fst tch))
          (case tc_ordered (fst tch) of None \<Rightarrow> True | Some b \<Rightarrow> b)")
        (simp_all add: evalTestCase_def Let_def ebind_def flip: outcome_def)
    have "st = (rs @ [\<lparr>r_label = (case tc_label (fst tch) of None \<Rightarrow> ''Unnamed test'' | Some l \<Rightarrow> l),
        r_status = PStr (if passed then ''pass'' else ''fail''),
        r_expected = tc_expected (fst tch), r_actual = actual, r_error = PNone,
        r_hidden = snd tch, r_weight = caseWeight (fst tch)\<rparr>], t + caseWeight (fst tch),
        if passed then e + caseWeight (fst tch) else e)"
      using assms os True ac pa by (simp add: evalTestCase_def Let_def ebind_def flip: outcome_def)
    then show ?thesis by (cases passed) simp_all
  qed
qed

lemma evalLoop_invariant:
  assumes "evalLoop P code pre tcs (rs, t, e) = Inr (rs', t', e')"
    and "\<forall>tch \<in> set tcs. 0 \<le> caseWeight (fst tch)"
    and "0 \<le> e" and "e \<le> t"
  shows "0 \<le> e' \<and> e' \<le> t' \<and> length rs' = length rs + length tcs"
  using assms
proof (induction tcs arbitrary: rs t e)
  case Nil
  then show ?case by simp
next
  case (Cons tch tcs)
  from Cons.prems(1) obtain st where
    st: "evalTestCase P code pre tch (rs, t, e) = Inr st"
    and rest: "evalLoop P code pre tcs st = Inr (rs', t', e')"
    by (auto simp add: ebind_def split: sum.splits)
  have w: "0 \<le> caseWeight (fst tch)" using Cons.prems(2) by simp
  from evalTestCase_step [OF st] obtain r where
    "st = (rs @ [r], t + caseWeight (fst tch), e + caseWeight (fst tch))
     \<or> st = (rs @ [r], t + caseWeight (fst tch), e)" by blast
  then show ?case
  proof
    assume s: "st = (rs @ [r], t + caseWeight (fst tch), e + caseWeight (fst tch))"
    show ?thesis
      using Cons.IH [OF rest [unfolded s]] Cons.prems(2,3,4) w by simp
  next
    assume s: "st = (rs @ [r], t + caseWeight (fst tch), e)"
    show ?thesis
      using Cons.IH [OF rest [unfolded s]] Cons.prems(2,3,4) w by simp
  qed
qed

section \<open>Score bounds\<close>

lemma correctness_score_bounds:
  assumes "runCorrectnessEvaluation P code prob = Inr r"
    and "\<forall>tc \<in> set (testCases prob) \<union> set (hiddenTestCases prob). 0 \<le> caseWeight tc"
  shows "0 \<le> c_score r" and "c_score r \<le> 100"
proof -
  define pre where "pre = (case preamble prob of None \<Rightarrow> [] | Some p \<Rightarrow> p)"
  define tcs where "tcs = map (\<lambda>tc. (tc, False)) (testCases prob)
      @ map (\<lambda>tc. (tc, True)) (hiddenTestCases prob)"
  obtain rs t e where loop: "evalLoop P code pre tcs ([], 0, 0) = Inr (rs, t, e)"
    and sc: "weightedScore e t = Inr (c_score r)"
    using assms(1)
    by (auto simp add: runCorrectnessEvaluation_def Let_def ebind_def pre_def tcs_def
        split: sum.splits prod.splits)
  have w: "\<forall>tch \<in> set tcs. 0 \<le> caseWeight (fst tch)"
    using assms(2) by (auto simp add: tcs_def)
  have "0 \<le> e \<and> e \<le> t \<and> length rs = length ([]::testResult list) + length tcs"
    using loop w by (rule evalLoop_invariant) simp_all
  then obtain s where "weightedScore e t = Inr s" "0 \<le> s" "s \<le> 100"
    using weightedScore_bounds [of e t] by blast
  with sc show "0 \<le> c_score r" and "c_score r \<le> 100" by simp_all
qed

lemma functionScore_bounds: "0 \<le> functionScore m" "functionScore m \<le> 100"
  unfolding functionScore_def Let_def by (auto simp add: min_def)

lemma sum_functionScore_bounds:
  "0 \<le> sum_list (map functionScore ms)"
  "sum_list (map functionScore ms) \<le> 100 * int (length ms)"
proof (induction ms)
  case Nil
  show "0 \<le> sum_list (map functionScore [])"
    and "sum_list (map functionScore []) \<le> 100 * int (length ([]::FunctionMetrics list))"
    by simp_all
next
  case (Cons m ms)
  show "0 \<le> sum_list (map functionScore (m # ms))"
    using Cons.IH(1) functionScore_bounds(1) [of m] by simp
  show "sum_list (map functionScore (m # ms)) \<le> 100 * int (length (m # ms))"
    using Cons.IH(2) functionScore_bounds(2) [of m] by simp
qed

lemma scoreFromMetrics_bounds:
  "\<exists>s. scoreFromMetrics ms = Inr s \<and> 0 \<le> s \<and> s \<le> 100"
proof (cases "ms = []")
  case True
  then show ?thesis by (simp add: scoreFromMetrics_def)
next
  case False
  define a where "a = sum_list (map functionScore ms)"
  define b where "b = int (length ms)"
  have b: "0 < b" using False by (simp add: b_def)
  have a: "0 \<le> a" "a \<le> 100 * b" using sum_functionScore_bounds [of ms] by (simp_all add: a_def b_def)
  define y where "y = fl (of_int a / of_int b)"
  have d: "int_truediv a b = Inr (Fin y)" and y: "0 \<le> y" "y \<le> 100"
    using int_truediv_small [OF b a(1), of 100] a(2) by (simp_all add: y_def)
  have "scoreFromMetrics ms = Inr \<lfloor>y\<rfloor>"
    using False y(1) by (simp add: scoreFromMetrics_def ebind_def d flip: a_def b_def)
  moreover have "0 \<le> \<lfloor>y\<rfloor>" "\<lfloor>y\<rfloor> \<le> 100" using y by linarith+
  ultimately show ?thesis by blast
qed

lemma complexity_score_bounds:
  assumes "runComplexityEvaluation P code = Inr r"
  shows "0 \<le> x_score r" and "x_score r \<le> 100"
proof -
  have "0 \<le> x_score r \<and> x_score r \<le> 100"
  proof (cases "ast_parse P code")
    case (Inl exc)
    then have "x_score r = 0" using assms by (auto simp add: runComplexityEvaluation_def)
    then show ?thesis by simp
  next
    case (Inr tree)
    define ms where "ms = map analyseFunction
        (filter (\<lambda>n. cls n = ''FunctionDef'' \<or> cls n = ''AsyncFunctionDef'') (walk tree))"
    obtain s where s: "scoreFromMetrics ms = Inr s" "0 \<le> s" "s \<le> 100"
      using scoreFromMetrics_bounds [of ms] by blast
    have "x_score r = s"
      using assms Inr s(1)
      by (auto simp add: runComplexityEvaluation_def Let_def ebind_def ms_def split: sum.splits)
    with s show ?thesis by simp
  qed
  then show "0 \<le> x_score r" and "x_score r \<le> 100" by simp_all
qed

lemma violation_weight_nonneg:
  "0 \<le> (case map_of VIOLATION_WEIGHTS k of Some w \<Rightarrow> w | None \<Rightarrow> 2)"
  by (simp add: VIOLATION_WEIGHTS_def)

lemma style_deduction_nonneg:
  "a \<le> fold (\<lambda>kv total.
        total + int (length (snd kv))
                * (case map_of VIOLATION_WEIGHTS (fst kv) of Some w \<Rightarrow> w | None \<Rightarrow> 2)) vs a"
proof (induction vs arbitrary: a)
  case Nil
  show ?case by simp
next
  case (Cons kv vs)
  have "0 \<le> int (length (snd kv))
      * (case map_of VIOLATION_WEIGHTS (fst kv) of Some w \<Rightarrow> w | None \<Rightarrow> 2)"
    using violation_weight_nonneg [of "fst kv"] by simp
  then show ?case using Cons.IH [of "a + int (length (snd kv))
      * (case map_of VIOLATION_WEIGHTS (fst kv) of Some w \<Rightarrow> w | None \<Rightarrow> 2)"] by simp
qed

lemma styleComputeScore_bounds: "0 \<le> styleComputeScore vs" "styleComputeScore vs \<le> 100"
  using style_deduction_nonneg [of 0 vs] by (simp_all add: styleComputeScore_def Let_def)

lemma style_score_bounds:
  "0 \<le> s_score (runStyleEvaluation P code)" "s_score (runStyleEvaluation P code) \<le> 100"
  by (simp_all add: runStyleEvaluation_def Let_def styleComputeScore_bounds split: sum.splits)

lemma severity_deduction_nonneg: "0 \<le> SEVERITY_DEDUCTIONS v"
  by (cases v) simp_all

lemma securityComputeScore_bounds:
  "0 \<le> securityComputeScore fs" "securityComputeScore fs \<le> 100"
proof -
  have "0 \<le> sum_list (map (\<lambda>f. SEVERITY_DEDUCTIONS (f_severity f)) fs)"
    by (rule sum_list_nonneg) (auto simp add: severity_deduction_nonneg)
  then show "0 \<le> securityComputeScore fs" "securityComputeScore fs \<le> 100"
    by (simp_all add: securityComputeScore_def Let_def)
qed

lemma security_score_bounds:
  "0 \<le> k_score (runSecurityEvaluation P code)" "k_score (runSecurityEvaluation P code) \<le> 100"
  by (simp_all add: runSecurityEvaluation_def Let_def securityComputeScore_bounds split: sum.splits)

lemma overall_score_in_range:
  assumes "0 \<le> C" "C \<le> 100" and "0 \<le> X" "X \<le> 100"
    and "0 \<le> S" "S \<le> 100" and "0 \<le> K" "K \<le> 100"
  shows "\<exists>n. computeOverallScore C X S K = Inr n \<and> 0 \<le> n \<and> n \<le> 100"
proof -
  define m where "m = 50 * C + 20 * X + 15 * S + 15 * K"
  obtain n where n: "computeOverallScore C X S K = Inr n"
    and d: "\<bar>of_int n - (of_int m :: rat) / 100\<bar> \<le> 1 / 2"
    using overall_score_nearest [OF assms] unfolding m_def by blast
  have m: "0 \<le> m" "m \<le> 10000" using assms by (simp_all add: m_def)
  then have "(0::rat) \<le> of_int m" "(of_int m :: rat) \<le> 10000" by simp_all
  then have "(- 1 :: rat) < of_int n" "(of_int n :: rat) < 101" using d by linarith+
  then have "- 1 < n" "n < 101" by simp_all
  then show ?thesis using n by simp
qed

lemma overall_report_bounds:
  assumes "evaluateCode P code prob = Inr rep"
    and "\<forall>tc \<in> set (testCases prob) \<union> set (hiddenTestCases prob). 0 \<le> caseWeight tc"
  shows "0 \<le> overallScore rep" and "overallScore rep \<le> 100"
proof -
  obtain cr xr where cr: "runCorrectnessEvaluation P code prob = Inr cr"
    and xr: "runComplexityEvaluation P code = Inr xr"
    and br: "buildReport code cr xr (runStyleEvaluation P code) (runSecurityEvaluation P code) = Inr rep"
    using assms(1) by (auto simp add: evaluateCode_def ebind_def Let_def split: sum.splits)
  obtain n where n: "computeOverallScore (c_score cr) (x_score xr)
      (s_score (runStyleEvaluation P code)) (k_score (runSecurityEvaluation P code)) = Inr n"
    and b: "0 \<le> n" "n \<le> 100"
    using overall_score_in_range [OF correctness_score_bounds [OF cr assms(2)]
        complexity_score_bounds [OF xr] style_score_bounds security_score_bounds]
    by blast
  have "overallScore rep = n" using br n by (auto simp add: buildReport_def ebind_def)
  with b show "0 \<le> overallScore rep" and "overallScore rep \<le> 100" by simp_all
qed

lemma correctness_returns:
  assumes "evalLoop P code (case preamble prob of None \<Rightarrow> [] | Some p \<Rightarrow> p)
             (map (\<lambda>tc. (tc, False)) (testCases prob) @ map (\<lambda>tc. (tc, True)) (hiddenTestCases prob))
             ([], 0, 0) = Inr (rs, t, e)"
    and "weightedScore e t = Inr s"
  shows "runCorrectnessEvaluation P code prob =
           Inr \<lparr>c_score = s,
                c_passed = int (length (filter (\<lambda>r. py_eq (r_status r) (PStr ''pass'')) rs)),
                c_total = int (length (testCases prob) + length (hiddenTestCases prob)),
                c_testResults = rs\<rparr>"
  using assms by (simp add: runCorrectnessEvaluation_def Let_def ebind_def)

text \<open>The submission \<open>src_solve_one\<close> on the two test cases of \<open>example_problem\<close>: the
  first passes, the second runs into the timeout.\<close>

lemma example_loop_2_1:
  "evalLoop example_platform src_solve_one
     (case preamble (example_problem 2 1) of None \<Rightarrow> [] | Some p \<Rightarrow> p)
     (map (\<lambda>tc. (tc, False)) (testCases (example_problem 2 1))
      @ map (\<lambda>tc. (tc, True)) (hiddenTestCases (example_problem 2 1)))
     ([], 0, 0) =
   Inr ([\<lparr>r_label = ''first'', r_status = PStr ''pass'', r_expected = PNone, r_actual = PNone,
           r_error = PNone, r_hidden = False, r_weight = 2\<rparr>,
         \<lparr>r_label = ''second'', r_status = PStr ''timeout'', r_expected = PNone, r_actual = PNone,
           r_error = PStr ''Exceeded 5s time limit.'', r_hidden = True, r_weight = 1\<rparr>],
        3, 2)"
  by code_simp

lemma example_complexity_solve_one:
  "(case runComplexityEvaluation example_platform src_solve_one of
      Inr r \<Rightarrow> x_score r = 100 \<and> map cyclomaticScore (x_functions r) = [3]
    | Inl e \<Rightarrow> False)"
  by code_simp

lemma example_style_security_solve_one:
  "s_score (runStyleEvaluation example_platform src_solve_one) = 96
   \<and> k_score (runSecurityEvaluation example_platform src_solve_one) = 100"
  by code_simp

text \<open>
  Claim C8.  For every platform, submission and problem whose test-case weights are not
  negative (the data model has them positive), each score that an operation produces is
  an integer between 0 and 100: the correctness score, the complexity score, the style
  score, the security score, and the overall score of the report.  The parse-failure and
  no-function branches are among the cases.  From any four dimension scores in that range
  the overall score is produced and lies in the range.
\<close>

theorem every_score_within_0_100:
  assumes "\<forall>tc \<in> set (testCases prob) \<union> set (hiddenTestCases prob). 0 \<le> caseWeight tc"
  shows "(\<forall>r. runCorrectnessEvaluation P code prob = Inr r \<longrightarrow> 0 \<le> c_score r \<and> c_score r \<le> 100)
       \<and> (\<forall>r. runComplexityEvaluation P code = Inr r \<longrightarrow> 0 \<le> x_score r \<and> x_score r \<le> 100)
       \<and> 0 \<le> s_score (runStyleEvaluation P code) \<and> s_score (runStyleEvaluation P code) \<le> 100
       \<and> 0 \<le> k_score (runSecurityEvaluation P code) \<and> k_score (runSecurityEvaluation P code) \<le> 100
       \<and> (\<forall>rep. evaluateCode P code prob = Inr rep \<longrightarrow> 0 \<le> overallScore rep \<and> overallScore rep \<le> 100)
       \<and> (\<forall>c x s k. 0 \<le> c \<and> c \<le> 100 \<and> 0 \<le> x \<and> x \<le> 100 \<and> 0 \<le> s \<and> s \<le> 100 \<and> 0 \<le> k \<and> k \<le> 100
              \<longrightarrow> (\<exists>n. computeOverallScore c x s k = Inr n \<and> 0 \<le> n \<and> n \<le> 100))"
proof (intro conjI allI impI)
  fix r assume "runCorrectnessEvaluation P code prob = Inr r"
  then show "0 \<le> c_score r" and "c_score r \<le> 100"
    using assms by (rule correctness_score_bounds)+
next
  fix r assume "runComplexityEvaluation P code = Inr r"
  then show "0 \<le> x_score r" and "x_score r \<le> 100"
    by (rule complexity_score_bounds)+
next
  show "0 \<le> s_score (runStyleEvaluation P code)" "s_score (runStyleEvaluation P code) \<le> 100"
    by (rule style_score_bounds)+
  show "0 \<le> k_score (runSecurityEvaluation P code)" "k_score (runSecurityEvaluation P code) \<le> 100"
    by (rule security_score_bounds)+
next
  fix rep assume "evaluateCode P code prob = Inr rep"
  then show "0 \<le> overallScore rep" and "overallScore rep \<le> 100"
    using assms by (rule overall_report_bounds)+
next
  fix c x s k :: int
  assume "0 \<le> c \<and> c \<le> 100 \<and> 0 \<le> x \<and> x \<le> 100 \<and> 0 \<le> s \<and> s \<le> 100 \<and> 0 \<le> k \<and> k \<le> 100"
  then show "\<exists>n. computeOverallScore c x s k = Inr n \<and> 0 \<le> n \<and> n \<le> 100"
    by (intro overall_score_in_range) simp_all
qed

lemma example_weights_nonneg:
  "\<forall>tc \<in> set (testCases (example_problem 2 1)) \<union> set (hiddenTestCases (example_problem 2 1)).
     0 \<le> caseWeight tc"
  by (simp add: example_problem_def example_case_def caseWeight_def)

lemma example_correctness_returns:
  "\<exists>r. runCorrectnessEvaluation example_platform src_solve_one (example_problem 2 1) = Inr r"
proof -
  obtain s where "weightedScore 2 3 = Inr s" using weightedScore_bounds [of 2 3] by auto
  with example_loop_2_1 show ?thesis by (blast dest: correctness_returns)
qed

lemma example_complexity_returns:
  "\<exists>r. runComplexityEvaluation example_platform src_solve_one = Inr r"
  using example_complexity_solve_one
  by (cases "runComplexityEvaluation example_platform src_solve_one") simp_all

lemma example_report_returns:
  "\<exists>rep. evaluateCode example_platform src_solve_one (example_problem 2 1) = Inr rep"
proof -
  obtain cr where cr: "runCorrectnessEvaluation example_platform src_solve_one (example_problem 2 1) = Inr cr"
    using example_correctness_returns by blast
  obtain xr where xr: "runComplexityEvaluation example_platform src_solve_one = Inr xr"
    using example_complexity_returns by blast
  obtain n where "computeOverallScore (c_score cr) (x_score xr)
      (s_score (runStyleEvaluation example_platform src_solve_one))
      (k_score (runSecurityEvaluation example_platform src_solve_one)) = Inr n"
    using overall_score_in_range [OF correctness_score_bounds [OF cr example_weights_nonneg]
        complexity_score_bounds [OF xr] style_score_bounds security_score_bounds]
    by blast
  then show ?thesis
    by (simp add: evaluateCode_def cr xr ebind_def Let_def buildReport_def)
qed

theorem every_score_within_0_100_witness:
  "testCases (example_problem 2 1) = [example_case ''first'' ''solve(1)'' 2]
   \<and> hiddenTestCases (example_problem 2 1) = [example_case ''second'' ''solve(2)'' 1]
   \<and> 0 \<le> caseWeight (example_case ''first'' ''solve(1)'' 2)
   \<and> 0 \<le> caseWeight (example_case ''second'' ''solve(2)'' 1)
   \<and> (\<exists>r. runCorrectnessEvaluation example_platform src_solve_one (example_problem 2 1) = Inr r
          \<and> 0 \<le> c_score r \<and> c_score r \<le> 100)
   \<and> (\<exists>r. runComplexityEvaluation example_platform src_solve_one = Inr r
          \<and> 0 \<le> x_score r \<and> x_score r \<le> 100)
   \<and> (\<exists>rep. evaluateCode example_platform src_solve_one (example_problem 2 1) = Inr rep
          \<and> 0 \<le> overallScore rep \<and> overallScore rep \<le> 100)
   \<and> (\<exists>n. computeOverallScore 66 100 96 100 = Inr n \<and> 0 \<le> n \<and> n \<le> 100)"
proof -
  note T = every_score_within_0_100 [OF example_weights_nonneg, of example_platform src_solve_one]
  obtain r where r: "runCorrectnessEvaluation example_platform src_solve_one (example_problem 2 1) = Inr r"
    using example_correctness_returns by blast
  have rb: "0 \<le> c_score r \<and> c_score r \<le> 100" using T r by blast
  obtain xr where xr: "runComplexityEvaluation example_platform src_solve_one = Inr xr"
    using example_complexity_returns by blast
  have xb: "0 \<le> x_score xr \<and> x_score xr \<le> 100" using T xr by blast
  obtain rep where rep: "evaluateCode example_platform src_solve_one (example_problem 2 1) = Inr rep"
    using example_report_returns by blast
  have pb: "0 \<le> overallScore rep \<and> overallScore rep \<le> 100" using T rep by blast
  from T have L: "\<And>c x s k. 0 \<le> c \<and> c \<le> 100 \<and> 0 \<le> x \<and> x \<le> 100 \<and> 0 \<le> s \<and> s \<le> 100
      \<and> 0 \<le> k \<and> k \<le> 100 \<Longrightarrow> \<exists>n. computeOverallScore c x s k = Inr n \<and> 0 \<le> n \<and> n \<le> 100"
    by blast
  have ob: "\<exists>n. computeOverallScore 66 100 96 100 = Inr n \<and> 0 \<le> n \<and> n \<le> 100"
    by (rule L) simp
  have w: "testCases (example_problem 2 1) = [example_case ''first'' ''solve(1)'' 2]
      \<and> hiddenTestCases (example_problem 2 1) = [example_case ''second'' ''solve(2)'' 1]
      \<and> 0 \<le> caseWeight (example_case ''first'' ''solve(1)'' 2)
      \<and> 0 \<le> caseWeight (example_case ''second'' ''solve(2)'' 1)"
    by (simp add: example_problem_def example_case_def caseWeight_def)
  show ?thesis
    using w r rb xr xb rep pb ob by blast
qed

section \<open>Rounding of the overall score\<close>

text \<open>The double nearest to \<open>0.15\<close> lies below it, and so does nine times it after
  rounding: the sum for the scores \<open>(0, 0, 1, 9)\<close> comes out just below \<open>1.5\<close>.\<close>

lemma fl_weight_15: "fl (5404319552844595 / 36028797018963968) = 5404319552844595 / 36028797018963968"
proof -
  have "fl (5404319552844595 / 36028797018963968) = of_int 5404319552844595 * 2 powi (- 3 - 52)"
    by (rule fl_eqI) simp_all
  then show ?thesis by simp
qed

lemma fl_nine_weight_15:
  "fl (9 * (5404319552844595 / 36028797018963968)) = 6079859496950169 / 4503599627370496"
proof -
  have "fl (9 * (5404319552844595 / 36028797018963968)) = of_int 6079859496950169 * 2 powi (0 - 52)"
    by (rule fl_eqI) simp_all
  then show ?thesis by simp
qed

lemma fl_sum_1_9:
  "fl (5404319552844595 / 36028797018963968 + 6079859496950169 / 4503599627370496)
     = 6755399441055743 / 4503599627370496"
proof -
  have "fl (5404319552844595 / 36028797018963968 + 6079859496950169 / 4503599627370496)
      = of_int 6755399441055743 * 2 powi (0 - 52)"
    by (rule fl_eqI) simp_all
  then show ?thesis by simp
qed

lemma overall_0_0_1_9: "computeOverallScore 0 0 1 9 = Inr 1"
proof -
  define w3 :: rat where "w3 = 5404319552844595 / 36028797018963968"
  have z: "int_times_float 0 (Fin w) = Inr (Fin 0)" for w
    using int_times_float_small [of 0 w] by simp
  have a: "int_times_float 1 (Fin w3) = Inr (Fin w3)"
    using int_times_float_small [of 1 w3] fl_weight_15 by (simp add: w3_def)
  have b: "int_times_float 9 (Fin w3) = Inr (Fin (6079859496950169 / 4503599627370496))"
    using int_times_float_small [of 9 w3] fl_nine_weight_15 by (simp add: w3_def)
  have s1: "fadd (Fin 0) (Fin 0) = Fin 0" using fadd_small [of 0 0] by simp
  have s2: "fadd (Fin 0) (Fin w3) = Fin w3"
    using fadd_small [of 0 w3] fl_weight_15 by (simp add: w3_def)
  have s3: "fadd (Fin w3) (Fin (6079859496950169 / 4503599627370496))
      = Fin (6755399441055743 / 4503599627370496)"
    using fadd_small [of w3 "6079859496950169 / 4503599627370496"] fl_sum_1_9
    by (simp add: w3_def)
  have r: "rne (6755399441055743 / 4503599627370496) = 1"
    by (rule rne_eqI) simp
  show ?thesis
    unfolding computeOverallScore_def SCORE_WEIGHTS.simps weight_half weight_fifth weight_15
    unfolding w3_def [symmetric]
    by (simp add: z a b s1 s2 s3 r ebind_def del: fadd.simps)
qed

text \<open>
  Claim C6 as stated fails at the scores \<open>(0, 0, 1, 9)\<close>: the exact weighted sum is
  \<open>1.5\<close>, which rounds to 2 (half up, and also half to even), and the code returns 1.
\<close>

theorem overall_score_counterexample:
  "computeOverallScore 0 0 1 9 = Inr 1
   \<and> (50 / 100 * of_int 0 + 20 / 100 * of_int 0 + 15 / 100 * of_int 1 + 15 / 100 * of_int 9 :: rat)
       = 3 / 2
   \<and> round (3 / 2 :: rat) = 2 \<and> rne (3 / 2) = 2"
proof -
  have "rne (of_int 1 + 1 / 2) = 2" by (simp only: rne_tie) simp
  then have "rne (3 / 2) = 2" by simp
  moreover have "round (3 / 2 :: rat) = 2" by (simp add: round_def)
  ultimately show ?thesis by (simp add: overall_0_0_1_9)
qed

text \<open>
  Claim C6, as the code has it.  For dimension scores between 0 and 100,
  \<open>computeOverallScore\<close> returns an integer that differs from the exact weighted sum
  \<open>0.50\<cdot>C + 0.20\<cdot>X + 0.15\<cdot>S + 0.15\<cdot>K\<close> by at most one half.  When the exact sum does not
  end in \<open>.5\<close> (that is, \<open>50 C + 20 X + 15 S + 15 K\<close> is not 50 modulo 100), the result is
  the exact sum rounded to the nearest integer; when it does, the result is one of its two
  neighbouring integers, as the double-precision sum falls.  The grade thresholds are
  inclusive at their lower bound: 90 is an A and 89 a B, 80 a B, 70 a C, 60 a D, and
  anything below 60 an F.
\<close>

theorem overall_score_rounds_weighted_sum:
  assumes "0 \<le> C" "C \<le> 100" and "0 \<le> X" "X \<le> 100"
    and "0 \<le> S" "S \<le> 100" and "0 \<le> K" "K \<le> 100"
  shows "(\<exists>n. computeOverallScore C X S K = Inr n
           \<and> \<bar>of_int n - (50 / 100 * of_int C + 20 / 100 * of_int X
                            + 15 / 100 * of_int S + 15 / 100 * of_int K :: rat)\<bar> \<le> 1 / 2
           \<and> ((50 * C + 20 * X + 15 * S + 15 * K) mod 100 \<noteq> 50 \<longrightarrow>
                n = round (50 / 100 * of_int C + 20 / 100 * of_int X
                            + 15 / 100 * of_int S + 15 / 100 * of_int K :: rat)))
       \<and> fst (assignGrade g) =
           (if 90 \<le> g then ''A'' else if 80 \<le> g then ''B'' else if 70 \<le> g then ''C''
            else if 60 \<le> g then ''D'' else ''F'')
       \<and> fst (assignGrade 90) = ''A'' \<and> fst (assignGrade 89) = ''B''
       \<and> fst (assignGrade 80) = ''B'' \<and> fst (assignGrade 70) = ''C''
       \<and> fst (assignGrade 60) = ''D'' \<and> fst (assignGrade 59) = ''F''"
proof -
  define m where "m = 50 * C + 20 * X + 15 * S + 15 * K"
  define v :: rat where "v = 50 / 100 * of_int C + 20 / 100 * of_int X
      + 15 / 100 * of_int S + 15 / 100 * of_int K"
  have v: "v = (of_int m :: rat) / 100" by (simp add: v_def m_def)
  obtain n where n: "computeOverallScore C X S K = Inr n" and d: "\<bar>of_int n - v\<bar> \<le> 1 / 2"
    using overall_score_nearest [OF assms] unfolding v m_def by blast
  have exact: "n = round v" if nt: "m mod 100 \<noteq> 50"
  proof -
    have sc: "(of_int (100 * n - m) :: rat) = 100 * (of_int n - v)" by (simp add: v)
    have "(of_int (100 * n - m) :: rat) \<noteq> of_int 50"
    proof
      assume "(of_int (100 * n - m) :: rat) = of_int 50"
      then have "100 * n - m = 50" by (simp only: of_int_eq_iff)
      then have "m mod 100 = 50" by presburger
      with nt show False by simp
    qed
    moreover have "(of_int (100 * n - m) :: rat) \<noteq> of_int (- 50)"
    proof
      assume "(of_int (100 * n - m) :: rat) = of_int (- 50)"
      then have "100 * n - m = - 50" by (simp only: of_int_eq_iff)
      then have "m mod 100 = 50" by presburger
      with nt show False by simp
    qed
    ultimately have ne: "100 * (of_int n - v) \<noteq> 50" "100 * (of_int n - v) \<noteq> - 50"
      unfolding sc by simp_all
    have n1: "of_int n - v \<noteq> 1 / 2" and n2: "- (1 / 2) \<noteq> of_int n - v" using ne by auto
    have l1: "of_int n - v \<le> 1 / 2" and l2: "- (1 / 2) \<le> of_int n - v" using d by linarith+
    have "of_int n - v < 1 / 2" using l1 n1 by (rule le_neq_trans)
    moreover have "- (1 / 2) < of_int n - v" using l2 n2 by (rule le_neq_trans)
    ultimately have "of_int n - v < 1 / 2 \<and> - (1 / 2) < of_int n - v" by simp
    then have "\<bar>of_int n - v\<bar> < 1 / 2" by linarith
    then show ?thesis unfolding round_def by linarith
  qed
  have "\<exists>n. computeOverallScore C X S K = Inr n
      \<and> \<bar>of_int n - v\<bar> \<le> 1 / 2 \<and> (m mod 100 \<noteq> 50 \<longrightarrow> n = round v)"
    using n d exact by blast
  then show ?thesis
    unfolding v_def m_def by (simp add: gradeLoop_thresholds)
qed

theorem overall_score_rounds_weighted_sum_witness:
  "(0::int) \<le> 85 \<and> (85::int) \<le> 100 \<and> (0::int) \<le> 90 \<and> (90::int) \<le> 100
   \<and> (0::int) \<le> 70 \<and> (70::int) \<le> 100 \<and> (0::int) \<le> 100 \<and> (100::int) \<le> 100
   \<and> (50 * 85 + 20 * 90 + 15 * 70 + 15 * 100) mod 100 \<noteq> (50::int)
   \<and> computeOverallScore 85 90 70 100 = Inr 86
   \<and> fst (assignGrade 86) = ''B''"
proof -
  define v :: rat where "v = 50 / 100 * of_int 85 + 20 / 100 * of_int 90
      + 15 / 100 * of_int 70 + 15 / 100 * of_int 100"
  have v86: "v = 86" by (simp add: v_def)
  have r: "round v = 86" unfolding v86 by (simp add: round_def floor_eq_iff)
  have nt: "(50 * 85 + 20 * 90 + 15 * 70 + 15 * 100) mod 100 \<noteq> (50::int)" by simp
  have T: "(\<exists>n. computeOverallScore 85 90 70 100 = Inr n
           \<and> \<bar>of_int n - v\<bar> \<le> 1 / 2
           \<and> ((50 * 85 + 20 * 90 + 15 * 70 + 15 * 100) mod 100 \<noteq> (50::int) \<longrightarrow> n = round v))
       \<and> fst (assignGrade 86) =
           (if 90 \<le> (86::int) then ''A'' else if 80 \<le> (86::int) then ''B''
            else if 70 \<le> (86::int) then ''C'' else if 60 \<le> (86::int) then ''D'' else ''F'')
       \<and> fst (assignGrade 90) = ''A'' \<and> fst (assignGrade 89) = ''B''
       \<and> fst (assignGrade 80) = ''B'' \<and> fst (assignGrade 70) = ''C''
       \<and> fst (assignGrade 60) = ''D'' \<and> fst (assignGrade 59) = ''F''"
    unfolding v_def by (rule overall_score_rounds_weighted_sum) simp_all
  then obtain n where A: "computeOverallScore 85 90 70 100 = Inr n"
    and B: "(50 * 85 + 20 * 90 + 15 * 70 + 15 * 100) mod 100 \<noteq> (50::int) \<longrightarrow> n = round v"
    by blast
  have "n = 86" using B nt r by simp
  then have C: "computeOverallScore 85 90 70 100 = Inr 86" using A by simp
  from T have G: "fst (assignGrade 86) =
           (if 90 \<le> (86::int) then ''A'' else if 80 \<le> (86::int) then ''B''
            else if 70 \<le> (86::int) then ''C'' else if 60 \<le> (86::int) then ''D'' else ''F'')"
    by blast
  then have G': "fst (assignGrade 86) = ''B''" by simp
  show ?thesis using nt C G' by simp
qed

end
